theory Spec2Isabelle
  imports Main "HOL-Library.Sublist"
begin

section \<open>Errors\<close>

text \<open>
  Go error values. Sentinel errors of the libraries are constructors of their own,
  \<open>errors.New\<close> and \<open>fmt.Errorf\<close> without \<open>%w\<close> give \<open>New\<close> with the message, and an
  error that wraps others (\<open>fmt.Errorf\<close> with \<open>%w\<close>, the joined errors of the JWT
  library) is \<open>Wrap\<close> with its message and the wrapped errors.
\<close>

datatype error =
    ErrRecordNotFound
  | ErrTokenMalformed
  | ErrTokenUnverifiable
  | ErrTokenSignatureInvalid
  | ErrSignatureInvalid
  | ErrInvalidKeyType
  | ErrTokenInvalidClaims
  | ErrTokenExpired
  | ErrTokenNotValidYet
  | ParseError string
  | BindError string
  | StoreError string
  | New string
  | Wrap string "error list"

text \<open>\<open>errors.Is\<close>: the error itself or one it wraps, at any depth.\<close>

fun errors_Is :: "error \<Rightarrow> error \<Rightarrow> bool" where
  "errors_Is (Wrap m es) target = (Wrap m es = target \<or> list_ex (\<lambda>e. errors_Is e target) es)"
| "errors_Is e target = (e = target)"

text \<open>
  \<open>err.Error()\<close>. A wrapping error carries its whole message, formatted when it was
  made.
\<close>

fun Error :: "error \<Rightarrow> string" where
  "Error ErrRecordNotFound = ''record not found''"
| "Error ErrTokenMalformed = ''token is malformed''"
| "Error ErrTokenUnverifiable = ''token is unverifiable''"
| "Error ErrTokenSignatureInvalid = ''token signature is invalid''"
| "Error ErrSignatureInvalid = ''signature is invalid''"
| "Error ErrInvalidKeyType = ''key is of invalid type''"
| "Error ErrTokenInvalidClaims = ''token has invalid claims''"
| "Error ErrTokenExpired = ''token is expired''"
| "Error ErrTokenNotValidYet = ''token is not valid yet''"
| "Error (ParseError m) = m"
| "Error (BindError m) = m"
| "Error (StoreError m) = m"
| "Error (New m) = m"
| "Error (Wrap m es) = m"

text \<open>\<open>fmt.Errorf(msg + "%w", err)\<close>\<close>

definition Errorf_w :: "string \<Rightarrow> error \<Rightarrow> error" where
  "Errorf_w msg err = Wrap (msg @ Error err) [err]"

section \<open>Time\<close>

text \<open>
  A \<open>time.Time\<close> is an instant: nanoseconds since the Unix epoch. A \<open>time.Duration\<close> is
  a number of nanoseconds.
\<close>

type_synonym Time = int
type_synonym Duration = int

definition Second :: Duration where
  "Second = 1000000000"

definition Hour :: Duration where
  "Hour = 3600 * Second"

definition isDigit :: "char \<Rightarrow> bool" where
  "isDigit c = (48 \<le> (of_char c :: nat) \<and> (of_char c :: nat) \<le> 57)"

definition digit :: "char \<Rightarrow> nat" where
  "digit c = of_char c - 48"

definition isLeap :: "nat \<Rightarrow> bool" where
  "isLeap y = (y mod 4 = 0 \<and> (y mod 100 \<noteq> 0 \<or> y mod 400 = 0))"

definition daysIn :: "nat \<Rightarrow> nat \<Rightarrow> nat" where
  "daysIn m y =
     (if m = 2 then (if isLeap y then 29 else 28)
      else if m = 4 \<or> m = 6 \<or> m = 9 \<or> m = 11 then 30
      else 31)"

text \<open>
  \<open>time.Date(y, m, d, 0, 0, 0, 0, time.UTC)\<close> for a valid calendar date: the days since
  1970-01-01 in the proleptic Gregorian calendar, as nanoseconds.
\<close>

definition daysSinceEpoch :: "nat \<Rightarrow> nat \<Rightarrow> nat \<Rightarrow> int" where
  "daysSinceEpoch y m d =
     (let y' = (if m \<le> 2 then int y - 1 else int y);
          era = y' div 400;
          yoe = y' - era * 400;
          mp = (if m > 2 then int m - 3 else int m + 9);
          doy = (153 * mp + 2) div 5 + int d - 1;
          doe = yoe * 365 + yoe div 4 - yoe div 100 + doy
      in era * 146097 + doe - 719468)"

definition Date :: "nat \<Rightarrow> nat \<Rightarrow> nat \<Rightarrow> Time" where
  "Date y m d = daysSinceEpoch y m d * 86400 * Second"

text \<open>
  \<open>time.Parse("2006-01-02", value)\<close>: four digits, a hyphen, two digits, a hyphen, two
  digits and nothing else; the month in 1..12 and the day within the month.
\<close>

definition time_Parse :: "string \<Rightarrow> error + Time" where
  "time_Parse v =
     (case v of
        [y1, y2, y3, y4, h1, m1, m2, h2, d1, d2] \<Rightarrow>
          if \<not> (isDigit y1 \<and> isDigit y2 \<and> isDigit y3 \<and> isDigit y4) then Inl (ParseError v)
          else if h1 \<noteq> CHR ''-'' then Inl (ParseError v)
          else if \<not> (isDigit m1 \<and> isDigit m2) then Inl (ParseError v)
          else if h2 \<noteq> CHR ''-'' then Inl (ParseError v)
          else if \<not> (isDigit d1 \<and> isDigit d2) then Inl (ParseError v)
          else
            (let year = digit y1 * 1000 + digit y2 * 100 + digit y3 * 10 + digit y4;
                 month = digit m1 * 10 + digit m2;
                 day = digit d1 * 10 + digit d2
             in if month < 1 \<or> 12 < month then Inl (ParseError v)
                else if day < 1 \<or> daysIn month year < day then Inl (ParseError v)
                else Inr (Date year month day))
      | _ \<Rightarrow> Inl (ParseError v))"

section \<open>Models (internal/models)\<close>

record Staff =
  ID :: nat
  Username :: string
  PasswordHash :: string
  HospitalID :: nat
  HospitalName :: string
  CreatedAt :: Time
  UpdatedAt :: Time

record StaffCreateRequest =
  Username :: string
  Password :: string
  Hospital :: string

record StaffLoginRequest =
  Username :: string
  Password :: string
  Hospital :: string

record Patient =
  ID :: nat
  HospitalID :: nat
  PatientHN :: string
  FirstNameTH :: string
  MiddleNameTH :: string
  LastNameTH :: string
  FirstNameEN :: string
  MiddleNameEN :: string
  LastNameEN :: string
  DateOfBirth :: "Time option"
  NationalID :: string
  PassportID :: string
  PhoneNumber :: string
  Email :: string
  Gender :: string

text \<open>A pointer field of the query is an option: \<open>nil\<close> is \<open>None\<close>.\<close>

record PatientSearchQuery =
  NationalID :: "string option"
  PassportID :: "string option"
  FirstNameTH :: "string option"
  FirstNameEN :: "string option"
  MiddleNameTH :: "string option"
  MiddleNameEN :: "string option"
  LastNameTH :: "string option"
  LastNameEN :: "string option"
  DateOfBirth :: "string option"
  PhoneNumber :: "string option"
  Email :: "string option"

section \<open>The store (internal/database)\<close>

text \<open>
  The database behind \<open>DB\<close>: the two tables, rows in primary-key order, the next value
  of the staff key sequence, and \<open>fault\<close>, the error every statement returns while the
  store is unavailable.
\<close>

record database =
  staff_table :: "Staff list"
  patients_table :: "Patient list"
  staff_seq :: nat
  fault :: "error option"

subsection \<open>SQL conditions on the patients table\<close>

datatype column =
    national_id | passport_id
  | first_name_th | first_name_en
  | middle_name_th | middle_name_en
  | last_name_th | last_name_en
  | phone_number | email

fun col :: "column \<Rightarrow> Patient \<Rightarrow> string" where
  "col national_id p = Patient.NationalID p"
| "col passport_id p = Patient.PassportID p"
| "col first_name_th p = Patient.FirstNameTH p"
| "col first_name_en p = Patient.FirstNameEN p"
| "col middle_name_th p = Patient.MiddleNameTH p"
| "col middle_name_en p = Patient.MiddleNameEN p"
| "col last_name_th p = Patient.LastNameTH p"
| "col last_name_en p = Patient.LastNameEN p"
| "col phone_number p = Patient.PhoneNumber p"
| "col email p = Patient.Email p"

text \<open>
  SQL \<open>LIKE\<close>, pattern first: \<open>%\<close> matches any run of characters, \<open>_\<close> any one
  character, a backslash makes the next pattern character literal, every other
  character matches itself. A pattern that ends in a lone backslash, which the
  database refuses, matches nothing here; the patterns of this program end in \<open>%\<close>.
\<close>

fun like :: "string \<Rightarrow> string \<Rightarrow> bool" where
  "like [] s = (s = [])"
| "like (c # p) [] = (c = CHR ''%'' \<and> like p [])"
| "like (c # p) (x # s) =
     (if c = CHR ''%'' then like p (x # s) \<or> like (c # p) s
      else if c = CHR ''_'' then like p s
      else if c = CHR 0x5C then (case p of [] \<Rightarrow> False | e # p' \<Rightarrow> x = e \<and> like p' s)
      else x = c \<and> like p s)"

text \<open>The conditions this program passes to \<open>Where\<close>, each with its arguments.\<close>

datatype cond =
    HospitalIdEq nat
  | Eq column string
  | Like column string
  | LikeOrLike column string column string
  | DateOfBirthEq Time

fun holds :: "cond \<Rightarrow> Patient \<Rightarrow> bool" where
  "holds (HospitalIdEq h) p = (Patient.HospitalID p = h)"
| "holds (Eq c v) p = (col c p = v)"
| "holds (Like c pat) p = like pat (col c p)"
| "holds (LikeOrLike c1 pat1 c2 pat2) p = (like pat1 (col c1 p) \<or> like pat2 (col c2 p))"
| "holds (DateOfBirthEq t) p = (Patient.DateOfBirth p = Some t)"

text \<open>
  A query under construction is the list of its conditions; \<open>Where\<close> adds one, and the
  statement selects the rows that satisfy all of them (a condition with \<open>OR\<close> is put in
  parentheses by the query builder).
\<close>

definition Where :: "cond list \<Rightarrow> cond \<Rightarrow> cond list" where
  "Where dbQuery c = dbQuery @ [c]"

definition Find :: "database \<Rightarrow> cond list \<Rightarrow> error + Patient list" where
  "Find DB dbQuery =
     (case fault DB of
        Some e \<Rightarrow> Inl e
      | None \<Rightarrow> Inr (filter (\<lambda>p. list_all (\<lambda>c. holds c p) dbQuery) (patients_table DB)))"

subsection \<open>SearchPatients\<close>

text \<open>\<open>q != nil && *q != ""\<close>\<close>

definition given :: "string option \<Rightarrow> bool" where
  "given q = (case q of None \<Rightarrow> False | Some v \<Rightarrow> v \<noteq> [])"

text \<open>An exact-match field: \<open>if given { dbQuery = dbQuery.Where("c = ?", *q) }\<close>.\<close>

definition whereEq :: "cond list \<Rightarrow> column \<Rightarrow> string option \<Rightarrow> cond list" where
  "whereEq dbQuery c q = (if given q then Where dbQuery (Eq c (the q)) else dbQuery)"

text \<open>A name component: the three-way \<open>if\<close> / \<open>else if\<close> / \<open>else if\<close> of the source.\<close>

definition whereName ::
  "cond list \<Rightarrow> column \<Rightarrow> string option \<Rightarrow> column \<Rightarrow> string option \<Rightarrow> cond list" where
  "whereName dbQuery cTH qTH cEN qEN =
     (if given qTH \<and> given qEN then
        (let nameLikeTH = ''%'' @ the qTH @ ''%'';
             nameLikeEN = ''%'' @ the qEN @ ''%''
         in Where dbQuery (LikeOrLike cTH nameLikeTH cEN nameLikeEN))
      else if given qTH then
        (let nameLike = ''%'' @ the qTH @ ''%'' in Where dbQuery (Like cTH nameLike))
      else if given qEN then
        (let nameLike = ''%'' @ the qEN @ ''%'' in Where dbQuery (Like cEN nameLike))
      else dbQuery)"

definition whereDateOfBirth :: "cond list \<Rightarrow> string option \<Rightarrow> cond list" where
  "whereDateOfBirth dbQuery q =
     (if given q then
        (case time_Parse (the q) of
           Inr dob \<Rightarrow> Where dbQuery (DateOfBirthEq dob)
         | Inl err \<Rightarrow> dbQuery)
      else dbQuery)"

definition buildQuery :: "PatientSearchQuery \<Rightarrow> nat \<Rightarrow> cond list" where
  "buildQuery query hospitalID =
     (let dbQuery = Where [] (HospitalIdEq hospitalID);
          dbQuery = whereEq dbQuery national_id (NationalID query);
          dbQuery = whereEq dbQuery passport_id (PassportID query);
          dbQuery = whereName dbQuery first_name_th (FirstNameTH query)
                                      first_name_en (FirstNameEN query);
          dbQuery = whereName dbQuery middle_name_th (MiddleNameTH query)
                                      middle_name_en (MiddleNameEN query);
          dbQuery = whereName dbQuery last_name_th (LastNameTH query)
                                      last_name_en (LastNameEN query);
          dbQuery = whereDateOfBirth dbQuery (DateOfBirth query);
          dbQuery = whereEq dbQuery phone_number (PhoneNumber query);
          dbQuery = whereEq dbQuery email (Email query)
      in dbQuery)"

definition SearchPatients ::
  "database \<Rightarrow> PatientSearchQuery \<Rightarrow> nat \<Rightarrow> error + Patient list" where
  "SearchPatients DB query hospitalID = Find DB (buildQuery query hospitalID)"

subsection \<open>Staff\<close>

text \<open>\<open>DB.Where("username = ?", username).First(&staff)\<close>\<close>

definition FindStaffByUsername :: "database \<Rightarrow> string \<Rightarrow> error + Staff" where
  "FindStaffByUsername DB username =
     (case fault DB of
        Some e \<Rightarrow> Inl e
      | None \<Rightarrow>
          (case filter (\<lambda>s. Staff.Username s = username) (staff_table DB) of
             [] \<Rightarrow> Inl ErrRecordNotFound
           | s # rest \<Rightarrow> Inr s))"

text \<open>
  \<open>DB.Create(staff)\<close>: the row gets the next key and its timestamps, and the struct
  behind the pointer is updated with them; the unique index on the username refuses a
  second row of the same name. The result is the error, the store and the struct.
\<close>

definition CreateStaff ::
  "database \<Rightarrow> Time \<Rightarrow> Staff \<Rightarrow> error option \<times> database \<times> Staff" where
  "CreateStaff DB now s =
     (case fault DB of
        Some e \<Rightarrow> (Some e, DB, s)
      | None \<Rightarrow>
          if list_ex (\<lambda>r. Staff.Username r = Staff.Username s) (staff_table DB)
          then (Some (StoreError ''duplicate key value violates unique constraint''), DB, s)
          else
            (let row = s\<lparr>Staff.ID := staff_seq DB, Staff.CreatedAt := now, Staff.UpdatedAt := now\<rparr>
             in (None, DB\<lparr>staff_table := staff_table DB @ [row], staff_seq := Suc (staff_seq DB)\<rparr>, row)))"

definition GetHospitalIDByName :: "string \<Rightarrow> error + nat" where
  "GetHospitalIDByName hospitalName =
     (if hospitalName = ''Hospital A'' then Inr 1
      else if hospitalName = ''Hospital B'' then Inr 2
      else Inl (New (''hospital not found: '' @ hospitalName)))"

section \<open>Password hashing (pkg/utils)\<close>

text \<open>
  The two functions of \<open>pkg/utils\<close> are parameters of the model: how a password is
  hashed, and whether a password verifies against a hash.
\<close>

record utils =
  HashPassword :: "string \<Rightarrow> error + string"
  CheckPasswordHash :: "string \<Rightarrow> string \<Rightarrow> bool"

section \<open>The JWT library (github.com/golang-jwt/jwt/v5)\<close>

text \<open>
  The library is a dependency, not part of the repository. This section follows its
  version 5, the one the auth service imports: the parser splits and decodes the token,
  asks the key function for the key, verifies the signature, and only then validates
  the claims.
\<close>

record RegisteredClaims =
  ExpiresAt :: "Time option"
  NotBefore :: "Time option"
  IssuedAt :: "Time option"
  Subject :: string

text \<open>
  The \<open>Claims\<close> struct of the auth service (internal/services) embeds the registered
  claims.
\<close>

record Claims = RegisteredClaims +
  UserID :: nat
  Username :: string
  HospitalID :: nat

type_synonym Header = "(string \<times> string) list"

datatype SigningMethod = SigningMethodHMAC string | SigningMethodOther string

definition SigningMethodHS256 :: SigningMethod where
  "SigningMethodHS256 = SigningMethodHMAC ''HS256''"

fun Alg :: "SigningMethod \<Rightarrow> string" where
  "Alg (SigningMethodHMAC a) = a"
| "Alg (SigningMethodOther a) = a"

text \<open>The registered signing methods, by the \<open>alg\<close> of the header.\<close>

definition GetSigningMethod :: "string \<Rightarrow> SigningMethod option" where
  "GetSigningMethod a =
     (if a \<in> set [''HS256'', ''HS384'', ''HS512''] then Some (SigningMethodHMAC a)
      else if a \<in> set [''RS256'', ''RS384'', ''RS512'', ''PS256'', ''PS384'', ''PS512'',
                        ''ES256'', ''ES384'', ''ES512'', ''EdDSA'', ''none'']
      then Some (SigningMethodOther a)
      else None)"

text \<open>
  What the library computes on bytes is a parameter of the model: the segment of a
  header and of the claims (JSON, then base64url) with their decoders, which return
  \<open>None\<close> on input that is not base64url or not JSON of the right shape, the base64url
  of a signature, and the HMAC of a signing string under a key, by the name of the
  method.
\<close>

record jwt_codec =
  EncodeHeader :: "Header \<Rightarrow> string"
  DecodeHeader :: "string \<Rightarrow> Header option"
  EncodeClaims :: "Claims \<Rightarrow> string"
  DecodeClaims :: "string \<Rightarrow> Claims option"
  EncodeSegment :: "string \<Rightarrow> string"
  DecodeSegment :: "string \<Rightarrow> string option"
  HMAC :: "string \<Rightarrow> string \<Rightarrow> string \<Rightarrow> string"

record Token =
  Raw :: string
  Method :: SigningMethod
  Header :: Header
  Claims :: Claims
  Signature :: string
  Valid :: bool

text \<open>\<open>jwt.NewNumericDate\<close>: the time truncated to whole seconds.\<close>

definition NewNumericDate :: "Time \<Rightarrow> Time" where
  "NewNumericDate t = (t div Second) * Second"

definition NewWithClaims :: "SigningMethod \<Rightarrow> Claims \<Rightarrow> Token" where
  "NewWithClaims method claims =
     \<lparr>Raw = [], Method = method, Header = [(''typ'', ''JWT''), (''alg'', Alg method)],
      Claims = claims, Signature = [], Valid = False\<rparr>"

text \<open>Signing: only the HMAC methods take a byte-string key.\<close>

definition Sign :: "jwt_codec \<Rightarrow> SigningMethod \<Rightarrow> string \<Rightarrow> string \<Rightarrow> error + string" where
  "Sign L method signingString key =
     (case method of
        SigningMethodHMAC a \<Rightarrow> Inr (HMAC L a key signingString)
      | SigningMethodOther a \<Rightarrow> Inl ErrInvalidKeyType)"

definition SigningString :: "jwt_codec \<Rightarrow> Token \<Rightarrow> string" where
  "SigningString L token = EncodeHeader L (Header token) @ ''.'' @ EncodeClaims L (Claims token)"

definition SignedString :: "jwt_codec \<Rightarrow> Token \<Rightarrow> string \<Rightarrow> error + string" where
  "SignedString L token key =
     (let sstr = SigningString L token
      in case Sign L (Method token) sstr key of
           Inl err \<Rightarrow> Inl err
         | Inr sig \<Rightarrow> Inr (sstr @ ''.'' @ EncodeSegment L sig))"

text \<open>\<open>strings.Split(s, sep)\<close> for a separator of one character.\<close>

fun Split :: "char \<Rightarrow> string \<Rightarrow> string list" where
  "Split sep [] = [[]]"
| "Split sep (c # s) =
     (if c = sep then [] # Split sep s
      else (case Split sep s of [] \<Rightarrow> [[c]] | part # parts \<Rightarrow> (c # part) # parts))"

text \<open>\<open>newError\<close>: the message of the first error, the text, the other errors.\<close>

definition newError :: "string \<Rightarrow> error \<Rightarrow> error list \<Rightarrow> error" where
  "newError message err others =
     Wrap (Error err @ (if message = [] then [] else '': '' @ message)
             @ concat (map (\<lambda>e. '': '' @ Error e) others))
          (err # others)"

text \<open>
  \<open>ParseUnverified\<close>: three segments, a header and claims that decode (base64url, then
  JSON: one step here, with one message), and a header whose \<open>alg\<close> names a registered
  method. The result is the token and the segments.
\<close>

definition ParseUnverified ::
  "jwt_codec \<Rightarrow> string \<Rightarrow> error + (Token \<times> string \<times> string \<times> string)" where
  "ParseUnverified L tokenString =
     (case Split CHR ''.'' tokenString of
        [p0, p1, p2] \<Rightarrow>
          (case DecodeHeader L p0 of
             None \<Rightarrow> Inl (newError ''could not decode header'' ErrTokenMalformed [])
           | Some header \<Rightarrow>
               (case DecodeClaims L p1 of
                  None \<Rightarrow> Inl (newError ''could not decode claim'' ErrTokenMalformed [])
                | Some claims \<Rightarrow>
                    (case map_of header ''alg'' of
                       None \<Rightarrow>
                         Inl (newError ''signing method (alg) is unspecified'' ErrTokenUnverifiable [])
                     | Some a \<Rightarrow>
                         (case GetSigningMethod a of
                            None \<Rightarrow>
                              Inl (newError ''signing method (alg) is unavailable''
                                     ErrTokenUnverifiable [])
                          | Some method \<Rightarrow>
                              Inr (\<lparr>Raw = tokenString, Method = method, Header = header,
                                    Claims = claims, Signature = [], Valid = False\<rparr>,
                                   p0, p1, p2)))))
      | _ \<Rightarrow> Inl (newError ''token contains an invalid number of segments'' ErrTokenMalformed []))"

definition Verify ::
  "jwt_codec \<Rightarrow> SigningMethod \<Rightarrow> string \<Rightarrow> string \<Rightarrow> string \<Rightarrow> error option" where
  "Verify L method signingString sig key =
     (case method of
        SigningMethodHMAC a \<Rightarrow>
          if sig = HMAC L a key signingString then None else Some ErrSignatureInvalid
      | SigningMethodOther a \<Rightarrow> Some ErrInvalidKeyType)"

text \<open>
  The default validator: the expiry, if the claims have one, must be after now; the
  not-before, if they have one, must not be. The failures are joined.
\<close>

fun joinMessages :: "error list \<Rightarrow> string" where
  "joinMessages [] = []"
| "joinMessages [e] = Error e"
| "joinMessages (e # es) = Error e @ '', '' @ joinMessages es"

definition Validate :: "Time \<Rightarrow> Claims \<Rightarrow> error option" where
  "Validate now claims =
     (let errs =
            (case ExpiresAt claims of
               None \<Rightarrow> []
             | Some exp \<Rightarrow> if now < exp then [] else [ErrTokenExpired])
          @ (case NotBefore claims of
               None \<Rightarrow> []
             | Some nbf \<Rightarrow> if now < nbf then [ErrTokenNotValidYet] else [])
      in if errs = [] then None
         else Some (Wrap (joinMessages errs) errs))"

text \<open>
  \<open>ParseWithClaims\<close>: parse, decode the signature, ask the key function for the key,
  verify the signature, then validate the claims at the time \<open>now\<close>.
\<close>

definition ParseWithClaims ::
  "jwt_codec \<Rightarrow> (Token \<Rightarrow> error + string) \<Rightarrow> Time \<Rightarrow> string \<Rightarrow> error + Token" where
  "ParseWithClaims L keyFunc now tokenString =
     (case ParseUnverified L tokenString of
        Inl err \<Rightarrow> Inl err
      | Inr (token, p0, p1, p2) \<Rightarrow>
          (case DecodeSegment L p2 of
             None \<Rightarrow> Inl (newError ''could not base64 decode signature'' ErrTokenMalformed [])
           | Some sig \<Rightarrow>
               (let token = token\<lparr>Signature := sig\<rparr>;
                    text = p0 @ ''.'' @ p1
                in case keyFunc token of
                     Inl err \<Rightarrow>
                       Inl (newError ''error while executing keyfunc'' ErrTokenUnverifiable [err])
                   | Inr key \<Rightarrow>
                       (case Verify L (Method token) text sig key of
                          Some err \<Rightarrow> Inl (newError [] ErrTokenSignatureInvalid [err])
                        | None \<Rightarrow>
                            (case Validate now (Claims token) of
                               Some err \<Rightarrow> Inl (newError [] ErrTokenInvalidClaims [err])
                             | None \<Rightarrow> Inr (token\<lparr>Valid := True\<rparr>))))))"

section \<open>The auth service (internal/services)\<close>

record Config =
  JWTSecret :: string
  JWTExpiry :: Duration

text \<open>The package-level variables that \<open>InitializeAuthService\<close> sets.\<close>

record AuthService =
  jwtKey :: string
  jwtExpiry :: Duration

definition InitializeAuthService :: "Config \<Rightarrow> AuthService" where
  "InitializeAuthService cfg = \<lparr>jwtKey = JWTSecret cfg, jwtExpiry = JWTExpiry cfg\<rparr>"

text \<open>\<open>fmt.Sprintf("%d", n)\<close>\<close>

function Sprintf_d :: "nat \<Rightarrow> string" where
  "Sprintf_d n =
     (if n < 10 then [char_of (48 + n)]
      else Sprintf_d (n div 10) @ [char_of (48 + n mod 10)])"
  by pat_completeness auto
termination
  by (relation "measure id") auto

declare Sprintf_d.simps [simp del]

text \<open>
  \<open>AuthenticateStaff\<close>. The clock is read twice: \<open>now\<close> for the expiry, \<open>now'\<close> for the
  issued-at.
\<close>

definition AuthenticateStaff ::
  "jwt_codec \<Rightarrow> utils \<Rightarrow> AuthService \<Rightarrow> database \<Rightarrow> Time \<Rightarrow> Time \<Rightarrow> StaffLoginRequest
     \<Rightarrow> error + (string \<times> Staff)" where
  "AuthenticateStaff L U A DB now now' loginReq =
     (case FindStaffByUsername DB (StaffLoginRequest.Username loginReq) of
        Inl err \<Rightarrow>
          if errors_Is err ErrRecordNotFound then Inl (New ''invalid username or password'')
          else Inl (Errorf_w ''database error during login: '' err)
      | Inr staff \<Rightarrow>
          (case GetHospitalIDByName (StaffLoginRequest.Hospital loginReq) of
             Inl err \<Rightarrow>
               if errors_Is err ErrRecordNotFound then Inl (New ''invalid hospital specified'')
               else Inl (New ''error verifying hospital'')
           | Inr inputHospitalID \<Rightarrow>
               if Staff.HospitalID staff \<noteq> inputHospitalID
               then Inl (New ''invalid hospital for this user'')
               else if \<not> CheckPasswordHash U (StaffLoginRequest.Password loginReq)
                                              (Staff.PasswordHash staff)
               then Inl (New ''invalid username or password'')
               else
                 (let expirationTime = now + jwtExpiry A;
                      claims = \<lparr>ExpiresAt = Some (NewNumericDate expirationTime),
                                NotBefore = None,
                                IssuedAt = Some (NewNumericDate now'),
                                Subject = Sprintf_d (Staff.ID staff),
                                UserID = Staff.ID staff,
                                Username = Staff.Username staff,
                                HospitalID = Staff.HospitalID staff\<rparr>;
                      token = NewWithClaims SigningMethodHS256 claims
                  in case SignedString L token (jwtKey A) of
                       Inl err \<Rightarrow> Inl (Errorf_w ''could not generate token: '' err)
                     | Inr tokenString \<Rightarrow>
                         Inr (tokenString, staff\<lparr>Staff.PasswordHash := []\<rparr>))))"

text \<open>The key function of \<open>ValidateToken\<close>: a key for the HMAC methods only.\<close>

definition keyFunc :: "AuthService \<Rightarrow> Token \<Rightarrow> error + string" where
  "keyFunc A token =
     (case Method token of
        SigningMethodHMAC a \<Rightarrow> Inr (jwtKey A)
      | SigningMethodOther a \<Rightarrow> Inl (New (''unexpected signing method: '' @ a)))"

definition ValidateToken :: "jwt_codec \<Rightarrow> AuthService \<Rightarrow> Time \<Rightarrow> string \<Rightarrow> error + Claims" where
  "ValidateToken L A now tokenStr =
     (case ParseWithClaims L (keyFunc A) now tokenStr of
        Inl err \<Rightarrow>
          if errors_Is err ErrTokenExpired then Inl (New ''token is expired'')
          else Inl (New ''invalid token'')
      | Inr token \<Rightarrow>
          if \<not> Valid token then Inl (New ''invalid token'')
          else Inr (Claims token))"

section \<open>The handlers (internal/api/handlers)\<close>

text \<open>
  A response is the status and the object given to \<open>c.JSON\<close>. A handler's input is the
  request as the binding decoded it; a field the request leaves out is empty.
\<close>

datatype body =
    ErrorBody string
  | StaffBody Staff
  | LoginBody string Staff
  | PatientsBody "Patient list"

datatype Response = JSON nat body

text \<open>What the request context holds under the claims key.\<close>

datatype ctx_value = ClaimsPtr Claims | OtherValue

definition SearchPatientHandler ::
  "database \<Rightarrow> ctx_value option \<Rightarrow> PatientSearchQuery \<Rightarrow> Response" where
  "SearchPatientHandler DB claimsInterface searchQuery =
     (case claimsInterface of
        None \<Rightarrow> JSON 401 (ErrorBody ''Authentication required (claims not found)'')
      | Some OtherValue \<Rightarrow> JSON 500 (ErrorBody ''Internal server error processing authentication'')
      | Some (ClaimsPtr claims) \<Rightarrow>
          (let staffHospitalID = Claims.HospitalID claims
           in case SearchPatients DB searchQuery staffHospitalID of
                Inl err \<Rightarrow> JSON 500 (ErrorBody ''Database error during patient search'')
              | Inr found \<Rightarrow>
                  if length found = 0 then JSON 200 (PatientsBody [])
                  else JSON 200 (PatientsBody found)))"

text \<open>
  The \<open>binding:"required"\<close> tags: every empty field fails the validation, and the error
  lists the failing fields in the order of the struct, one line each.
\<close>

definition fieldError :: "string \<Rightarrow> string \<Rightarrow> string" where
  "fieldError structName field =
     ''Key: '' @ [CHR 0x27] @ structName @ ''.'' @ field @ [CHR 0x27]
     @ '' Error:Field validation for '' @ [CHR 0x27] @ field @ [CHR 0x27]
     @ '' failed on the '' @ [CHR 0x27] @ ''required'' @ [CHR 0x27] @ '' tag''"

fun joinLines :: "string list \<Rightarrow> string" where
  "joinLines [] = []"
| "joinLines [l] = l"
| "joinLines (l # ls) = l @ [CHR 0x0A] @ joinLines ls"

definition ShouldBindJSON ::
  "string \<Rightarrow> string \<Rightarrow> string \<Rightarrow> string \<Rightarrow> error option" where
  "ShouldBindJSON structName username password hospital =
     (let failed = (if username = [] then [fieldError structName ''Username''] else [])
                 @ (if password = [] then [fieldError structName ''Password''] else [])
                 @ (if hospital = [] then [fieldError structName ''Hospital''] else [])
      in if failed = [] then None else Some (BindError (joinLines failed)))"

definition CreateStaffHandler ::
  "utils \<Rightarrow> database \<Rightarrow> Time \<Rightarrow> StaffCreateRequest \<Rightarrow> Response \<times> database" where
  "CreateStaffHandler U DB now req =
     (case ShouldBindJSON ''StaffCreateRequest''
             (StaffCreateRequest.Username req) (StaffCreateRequest.Password req)
             (StaffCreateRequest.Hospital req) of
        Some err \<Rightarrow> (JSON 400 (ErrorBody (''Invalid request body: '' @ Error err)), DB)
      | None \<Rightarrow>
          (case FindStaffByUsername DB (StaffCreateRequest.Username req) of
             Inr found \<Rightarrow> (JSON 409 (ErrorBody ''Username already exists''), DB)
           | Inl err \<Rightarrow>
               if \<not> errors_Is err ErrRecordNotFound
               then (JSON 500 (ErrorBody ''Database error checking username''), DB)
               else
                 (case HashPassword U (StaffCreateRequest.Password req) of
                    Inl err \<Rightarrow> (JSON 500 (ErrorBody ''Failed to process password''), DB)
                  | Inr hashedPassword \<Rightarrow>
                      (case GetHospitalIDByName (StaffCreateRequest.Hospital req) of
                         Inl err \<Rightarrow>
                           (JSON 400 (ErrorBody (''Invalid hospital specified: '' @ Error err)), DB)
                       | Inr hospitalID \<Rightarrow>
                           (let newStaff =
                                  \<lparr>Staff.ID = 0,
                                   Staff.Username = StaffCreateRequest.Username req,
                                   Staff.PasswordHash = hashedPassword,
                                   Staff.HospitalID = hospitalID,
                                   Staff.HospitalName = StaffCreateRequest.Hospital req,
                                   Staff.CreatedAt = 0,
                                   Staff.UpdatedAt = 0\<rparr>
                            in case CreateStaff DB now newStaff of
                                 (Some err, DB', newStaff) \<Rightarrow>
                                   (JSON 500 (ErrorBody ''Failed to create staff member''), DB')
                               | (None, DB', newStaff) \<Rightarrow>
                                   (JSON 201 (StaffBody (newStaff\<lparr>Staff.PasswordHash := []\<rparr>)),
                                    DB'))))))"

definition LoginStaffHandler ::
  "jwt_codec \<Rightarrow> utils \<Rightarrow> AuthService \<Rightarrow> database \<Rightarrow> Time \<Rightarrow> Time \<Rightarrow> StaffLoginRequest
     \<Rightarrow> Response" where
  "LoginStaffHandler L U A DB now now' req =
     (case ShouldBindJSON ''StaffLoginRequest''
             (StaffLoginRequest.Username req) (StaffLoginRequest.Password req)
             (StaffLoginRequest.Hospital req) of
        Some err \<Rightarrow> JSON 400 (ErrorBody (''Invalid request body: '' @ Error err))
      | None \<Rightarrow>
          (case AuthenticateStaff L U A DB now now' req of
             Inl err \<Rightarrow> JSON 401 (ErrorBody (Error err))
           | Inr (token, staff) \<Rightarrow> JSON 200 (LoginBody token staff)))"

section \<open>What the conditions of a search mean\<close>

text \<open>What each step of \<open>SearchPatients\<close> asks of a row.\<close>

definition satEq :: "column \<Rightarrow> string option \<Rightarrow> Patient \<Rightarrow> bool" where
  "satEq c q p = (if given q then col c p = the q else True)"

definition satName ::
  "column \<Rightarrow> string option \<Rightarrow> column \<Rightarrow> string option \<Rightarrow> Patient \<Rightarrow> bool" where
  "satName cTH qTH cEN qEN p =
     (if given qTH \<and> given qEN then
        like (''%'' @ the qTH @ ''%'') (col cTH p) \<or> like (''%'' @ the qEN @ ''%'') (col cEN p)
      else if given qTH then like (''%'' @ the qTH @ ''%'') (col cTH p)
      else if given qEN then like (''%'' @ the qEN @ ''%'') (col cEN p)
      else True)"

definition satDateOfBirth :: "string option \<Rightarrow> Patient \<Rightarrow> bool" where
  "satDateOfBirth q p =
     (if given q then
        (case time_Parse (the q) of
           Inr dob \<Rightarrow> Patient.DateOfBirth p = Some dob
         | Inl err \<Rightarrow> True)
      else True)"

definition matches :: "PatientSearchQuery \<Rightarrow> nat \<Rightarrow> Patient \<Rightarrow> bool" where
  "matches query hospitalID p =
     (Patient.HospitalID p = hospitalID
      \<and> satEq national_id (NationalID query) p
      \<and> satEq passport_id (PassportID query) p
      \<and> satName first_name_th (FirstNameTH query) first_name_en (FirstNameEN query) p
      \<and> satName middle_name_th (MiddleNameTH query) middle_name_en (MiddleNameEN query) p
      \<and> satName last_name_th (LastNameTH query) last_name_en (LastNameEN query) p
      \<and> satDateOfBirth (DateOfBirth query) p
      \<and> satEq phone_number (PhoneNumber query) p
      \<and> satEq email (Email query) p)"

subsection \<open>The search as the specification words it\<close>

text \<open>
  The specification's reading of a search: a name value is looked for as a substring
  of the field. A field is supplied when it is present and not empty.
\<close>

definition contains :: "string \<Rightarrow> string \<Rightarrow> bool" where
  "contains field v = sublist v field"

definition spec_name ::
  "column \<Rightarrow> string option \<Rightarrow> column \<Rightarrow> string option \<Rightarrow> Patient \<Rightarrow> bool" where
  "spec_name cTH qTH cEN qEN p =
     (if given qTH \<and> given qEN then
        contains (col cTH p) (the qTH) \<or> contains (col cEN p) (the qEN)
      else if given qTH then contains (col cTH p) (the qTH)
      else if given qEN then contains (col cEN p) (the qEN)
      else True)"

definition spec_matches :: "PatientSearchQuery \<Rightarrow> nat \<Rightarrow> Patient \<Rightarrow> bool" where
  "spec_matches query hospitalID p =
     (Patient.HospitalID p = hospitalID
      \<and> satEq national_id (NationalID query) p
      \<and> satEq passport_id (PassportID query) p
      \<and> spec_name first_name_th (FirstNameTH query) first_name_en (FirstNameEN query) p
      \<and> spec_name middle_name_th (MiddleNameTH query) middle_name_en (MiddleNameEN query) p
      \<and> spec_name last_name_th (LastNameTH query) last_name_en (LastNameEN query) p
      \<and> satDateOfBirth (DateOfBirth query) p
      \<and> satEq phone_number (PhoneNumber query) p
      \<and> satEq email (Email query) p)"

definition spec_Search ::
  "database \<Rightarrow> PatientSearchQuery \<Rightarrow> nat \<Rightarrow> error + Patient list" where
  "spec_Search DB query hospitalID =
     (case fault DB of
        Some e \<Rightarrow> Inl e
      | None \<Rightarrow> Inr (filter (spec_matches query hospitalID) (patients_table DB)))"

text \<open>A value with none of the characters that \<open>LIKE\<close> reads as more than themselves.\<close>

definition plain :: "string \<Rightarrow> bool" where
  "plain v = list_all (\<lambda>c. c \<noteq> CHR ''%'' \<and> c \<noteq> CHR ''_'' \<and> c \<noteq> CHR 0x5C) v"

definition plain_opt :: "string option \<Rightarrow> bool" where
  "plain_opt q = (case q of None \<Rightarrow> True | Some v \<Rightarrow> plain v)"

definition plain_names :: "PatientSearchQuery \<Rightarrow> bool" where
  "plain_names query =
     (plain_opt (FirstNameTH query) \<and> plain_opt (FirstNameEN query)
      \<and> plain_opt (MiddleNameTH query) \<and> plain_opt (MiddleNameEN query)
      \<and> plain_opt (LastNameTH query) \<and> plain_opt (LastNameEN query))"

section \<open>Issued tokens\<close>

text \<open>The claims and the header of the token that a login of \<open>staff\<close> issues.\<close>

definition issuedClaims :: "AuthService \<Rightarrow> Time \<Rightarrow> Time \<Rightarrow> Staff \<Rightarrow> Claims" where
  "issuedClaims A now now' staff =
     \<lparr>ExpiresAt = Some (NewNumericDate (now + jwtExpiry A)),
      NotBefore = None,
      IssuedAt = Some (NewNumericDate now'),
      Subject = Sprintf_d (Staff.ID staff),
      UserID = Staff.ID staff,
      Username = Staff.Username staff,
      HospitalID = Staff.HospitalID staff\<rparr>"

definition issuedHeader :: Header where
  "issuedHeader = [(''typ'', ''JWT''), (''alg'', ''HS256'')]"

text \<open>
  The codec carries a token: the segments of its header, claims and signature hold no
  dot, and decode to what was encoded.
\<close>

definition carries :: "jwt_codec \<Rightarrow> string \<Rightarrow> Header \<Rightarrow> Claims \<Rightarrow> bool" where
  "carries L key header claims =
     (let h = EncodeHeader L header;
          c = EncodeClaims L claims;
          sig = HMAC L ''HS256'' key (h @ ''.'' @ c);
          s = EncodeSegment L sig
      in DecodeHeader L h = Some header \<and> DecodeClaims L c = Some claims
         \<and> DecodeSegment L s = Some sig
         \<and> CHR ''.'' \<notin> set h \<and> CHR ''.'' \<notin> set c \<and> CHR ''.'' \<notin> set s)"

text \<open>The token string that signing a token of these claims with \<open>HS256\<close> gives.\<close>

definition tokenString_of :: "jwt_codec \<Rightarrow> string \<Rightarrow> Claims \<Rightarrow> string" where
  "tokenString_of L key claims =
     (let sstr = EncodeHeader L issuedHeader @ ''.'' @ EncodeClaims L claims
      in sstr @ ''.'' @ EncodeSegment L (HMAC L ''HS256'' key sstr))"

section \<open>Example data\<close>

definition patient_1 :: Patient where
  "patient_1 =
     \<lparr>Patient.ID = 1, Patient.HospitalID = 1, Patient.PatientHN = ''HN0001'',
      Patient.FirstNameTH = ''Somchai-th'', Patient.MiddleNameTH = [],
      Patient.LastNameTH = ''Jaidii-th'',
      Patient.FirstNameEN = ''Somchai'', Patient.MiddleNameEN = [],
      Patient.LastNameEN = ''Jaidii'',
      Patient.DateOfBirth = Some 642729600000000000,
      Patient.NationalID = ''1234567890123'', Patient.PassportID = [],
      Patient.PhoneNumber = ''0812345678'', Patient.Email = ''somchai@example.com'',
      Patient.Gender = ''M''\<rparr>"

definition patient_2 :: Patient where
  "patient_2 =
     \<lparr>Patient.ID = 2, Patient.HospitalID = 2, Patient.PatientHN = ''HN0011'',
      Patient.FirstNameTH = ''Sombat-th'', Patient.MiddleNameTH = [],
      Patient.LastNameTH = ''Meetrap-th'',
      Patient.FirstNameEN = ''Sombat'', Patient.MiddleNameEN = [],
      Patient.LastNameEN = ''Meetrap'',
      Patient.DateOfBirth = None,
      Patient.NationalID = ''1234567890123'', Patient.PassportID = [],
      Patient.PhoneNumber = ''0611223344'', Patient.Email = ''sombat@example.com'',
      Patient.Gender = ''M''\<rparr>"

definition alice :: Staff where
  "alice =
     \<lparr>Staff.ID = 1, Staff.Username = ''alice'', Staff.PasswordHash = ''hash:pw123'',
      Staff.HospitalID = 1, Staff.HospitalName = ''Hospital A'',
      Staff.CreatedAt = 0, Staff.UpdatedAt = 0\<rparr>"

definition store :: database where
  "store = \<lparr>staff_table = [alice], patients_table = [patient_1, patient_2],
            staff_seq = 2, fault = None\<rparr>"

definition no_criteria :: PatientSearchQuery where
  "no_criteria =
     \<lparr>PatientSearchQuery.NationalID = None, PatientSearchQuery.PassportID = None,
      PatientSearchQuery.FirstNameTH = None, PatientSearchQuery.FirstNameEN = None,
      PatientSearchQuery.MiddleNameTH = None, PatientSearchQuery.MiddleNameEN = None,
      PatientSearchQuery.LastNameTH = None, PatientSearchQuery.LastNameEN = None,
      PatientSearchQuery.DateOfBirth = None, PatientSearchQuery.PhoneNumber = None,
      PatientSearchQuery.Email = None\<rparr>"

definition toy_utils :: utils where
  "toy_utils =
     \<lparr>HashPassword = (\<lambda>password. Inr (''hash:'' @ password)),
      CheckPasswordHash = (\<lambda>password hash. hash = ''hash:'' @ password)\<rparr>"

definition service :: AuthService where
  "service = InitializeAuthService \<lparr>JWTSecret = ''secret'', JWTExpiry = 24 * Hour\<rparr>"

text \<open>The claims of a token issued to \<open>alice\<close> at second 1000, for 24 hours.\<close>

definition alice_claims :: Claims where
  "alice_claims =
     \<lparr>ExpiresAt = Some (87400 * Second), NotBefore = None, IssuedAt = Some (1000 * Second),
      Subject = ''1'', UserID = 1, Username = ''alice'', HospitalID = 1\<rparr>"

text \<open>
  A small codec for the examples: a header is its \<open>alg\<close>, the only claims it knows are
  those of \<open>alice\<close>, a signature is itself, and the HMAC is the method and the key before
  the signing string without its dots.
\<close>

definition toy_codec :: jwt_codec where
  "toy_codec =
     \<lparr>EncodeHeader = (\<lambda>h. case map_of h ''alg'' of None \<Rightarrow> [] | Some a \<Rightarrow> a),
      DecodeHeader = (\<lambda>s. if s = [] then None else Some [(''typ'', ''JWT''), (''alg'', s)]),
      EncodeClaims = (\<lambda>c. if c = alice_claims then ''alice'' else ''other''),
      DecodeClaims = (\<lambda>s. if s = ''alice'' then Some alice_claims else None),
      EncodeSegment = (\<lambda>s. s),
      DecodeSegment = (\<lambda>s. if s = [] then None else Some s),
      HMAC = (\<lambda>a key m. a @ key @ filter (\<lambda>c. c \<noteq> CHR ''.'') m)\<rparr>"

definition login :: "string \<Rightarrow> string \<Rightarrow> string \<Rightarrow> StaffLoginRequest" where
  "login u p h = \<lparr>StaffLoginRequest.Username = u, StaffLoginRequest.Password = p,
                  StaffLoginRequest.Hospital = h\<rparr>"

definition create :: "string \<Rightarrow> string \<Rightarrow> string \<Rightarrow> StaffCreateRequest" where
  "create u p h = \<lparr>StaffCreateRequest.Username = u, StaffCreateRequest.Password = p,
                   StaffCreateRequest.Hospital = h\<rparr>"

text \<open>The row that creating \<open>bob\<close> at time 7 adds to the store.\<close>

definition bob :: Staff where
  "bob =
     \<lparr>Staff.ID = 2, Staff.Username = ''bob'', Staff.PasswordHash = ''hash:pw456'',
      Staff.HospitalID = 2, Staff.HospitalName = ''Hospital B'',
      Staff.CreatedAt = 7, Staff.UpdatedAt = 7\<rparr>"

text \<open>A login half a microsecond after second 1000.\<close>

definition issue_time :: Time where
  "issue_time = 1000 * Second + 500"

text \<open>What \<open>ParseUnverified\<close> makes of a token of the toy codec with the claims of \<open>alice\<close>.\<close>

definition parsed :: "string \<Rightarrow> string \<Rightarrow> SigningMethod \<Rightarrow> Token" where
  "parsed raw a method =
     \<lparr>Raw = raw, Method = method, Header = [(''typ'', ''JWT''), (''alg'', a)],
      Claims = alice_claims, Signature = [], Valid = False\<rparr>"

text \<open>
  A login nine tenths of a second after second 1000, and a time three tenths of a second
  before the 24 hours of the configured expiry have passed since it.
\<close>

definition late_issue_time :: Time where
  "late_issue_time = 1000 * Second + 900000000"

definition late_check_time :: Time where
  "late_check_time = 87400 * Second + 600000000"

text \<open>
  A service with an expiry of 900 milliseconds, a login 50 milliseconds after second
  1000, a time 293 microseconds after that login, and the claims and the codec of the
  token that login issues.
\<close>

definition short_service :: AuthService where
  "short_service = InitializeAuthService \<lparr>JWTSecret = ''secret'', JWTExpiry = 900000000\<rparr>"

definition short_issue_time :: Time where
  "short_issue_time = 1000 * Second + 50000000"

definition short_check_time :: Time where
  "short_check_time = 1000 * Second + 50293000"

definition short_claims :: Claims where
  "short_claims =
     \<lparr>ExpiresAt = Some (1000 * Second), NotBefore = None, IssuedAt = Some (1000 * Second),
      Subject = ''1'', UserID = 1, Username = ''alice'', HospitalID = 1\<rparr>"

definition short_codec :: jwt_codec where
  "short_codec =
     toy_codec
       \<lparr>EncodeClaims := (\<lambda>c. if c = short_claims then ''alice'' else ''other''),
        DecodeClaims := (\<lambda>s. if s = ''alice'' then Some short_claims else None)\<rparr>"

section \<open>Patient search: properties\<close>

lemma holds_whereEq:
  "list_all (\<lambda>c. holds c p) (whereEq dbQuery c q) = (list_all (\<lambda>c. holds c p) dbQuery \<and> satEq c q p)"
  by (simp add: whereEq_def Where_def satEq_def)

lemma holds_whereName:
  "list_all (\<lambda>c. holds c p) (whereName dbQuery cTH qTH cEN qEN) =
     (list_all (\<lambda>c. holds c p) dbQuery \<and> satName cTH qTH cEN qEN p)"
  by (simp add: whereName_def Where_def satName_def Let_def)

lemma holds_whereDateOfBirth:
  "list_all (\<lambda>c. holds c p) (whereDateOfBirth dbQuery q) =
     (list_all (\<lambda>c. holds c p) dbQuery \<and> satDateOfBirth q p)"
  by (simp add: whereDateOfBirth_def Where_def satDateOfBirth_def split: sum.splits)

lemma holds_buildQuery:
  "list_all (\<lambda>c. holds c p) (buildQuery query hospitalID) = matches query hospitalID p"
  by (simp add: buildQuery_def Let_def holds_whereEq holds_whereName holds_whereDateOfBirth
        matches_def Where_def)

lemma SearchPatients_matches:
  "SearchPatients DB query hospitalID =
     (case fault DB of Some e \<Rightarrow> Inl e
      | None \<Rightarrow> Inr (filter (matches query hospitalID) (patients_table DB)))"
  by (simp add: SearchPatients_def Find_def holds_buildQuery split: option.splits)

lemma SearchPatients_scope:
  "SearchPatients DB query T = Inr ps \<Longrightarrow> p \<in> set ps \<Longrightarrow> Patient.HospitalID p = T"
  by (auto simp: SearchPatients_matches matches_def split: option.splits)

text \<open>
  C1. Whatever the criteria hold, every patient that \<open>SearchPatients\<close> returns for the
  tenant \<open>T\<close> has \<open>hospital_id = T\<close>; and every patient in a response of
  \<open>SearchPatientHandler\<close> has the hospital of the claims in the request context. The
  query has no field that could name another tenant.
\<close>

theorem SearchPatients_tenant_scope:
  "(SearchPatients DB query T = Inr ps \<longrightarrow> (\<forall>p \<in> set ps. Patient.HospitalID p = T))
   \<and> (SearchPatientHandler DB (Some (ClaimsPtr claims)) query = JSON status (PatientsBody ps')
        \<longrightarrow> (\<forall>p \<in> set ps'. Patient.HospitalID p = Claims.HospitalID claims))"
proof (intro conjI impI ballI)
  fix p assume "SearchPatients DB query T = Inr ps" "p \<in> set ps"
  then show "Patient.HospitalID p = T" by (rule SearchPatients_scope)
next
  fix p
  assume r: "SearchPatientHandler DB (Some (ClaimsPtr claims)) query = JSON status (PatientsBody ps')"
    and p: "p \<in> set ps'"
  show "Patient.HospitalID p = Claims.HospitalID claims"
  proof (cases "SearchPatients DB query (Claims.HospitalID claims)")
    case (Inl e)
    with r show ?thesis by (simp add: SearchPatientHandler_def)
  next
    case (Inr found)
    with r have "ps' = found" by (simp add: SearchPatientHandler_def split: if_splits)
    with Inr p show ?thesis using SearchPatients_scope by blast
  qed
qed

theorem SearchPatients_tenant_scope_witness:
  "SearchPatients store (no_criteria\<lparr>PatientSearchQuery.NationalID := Some ''1234567890123''\<rparr>) 2
     = Inr [patient_2]
   \<and> Patient.NationalID patient_1 = ''1234567890123''
   \<and> Patient.HospitalID patient_2 = 2"
proof -
  let ?q = "no_criteria\<lparr>PatientSearchQuery.NationalID := Some ''1234567890123''\<rparr>"
  have r: "SearchPatients store ?q 2 = Inr [patient_2]" by code_simp
  have n: "Patient.NationalID patient_1 = ''1234567890123''" by (simp add: patient_1_def)
  from SearchPatients_tenant_scope[of store ?q 2 "[patient_2]"] r
  have "Patient.HospitalID patient_2 = 2" by simp
  with r n show ?thesis by blast
qed


lemma given_simps: "given None = False" "given (Some []) = False" "v \<noteq> [] \<Longrightarrow> given (Some v) = True"
  by (simp_all add: given_def)

lemma time_Parse_nonempty: "time_Parse v = Inr t \<Longrightarrow> v \<noteq> []"
  by (auto simp: time_Parse_def)

lemma like_percent: "like ''%'' s"
  by (induction s) auto

lemma like_percent_prefix: "like (CHR ''%'' # p) s = (\<exists>a b. s = a @ b \<and> like p b)"
proof (induction s)
  case Nil
  then show ?case by simp
next
  case (Cons x s)
  show ?case 
  proof 
    assume "like (CHR ''%'' # p) (x # s)"
    then consider "like p (x # s)" | "like (CHR ''%'' # p) s" by auto
    then show "\<exists>a b. x # s = a @ b \<and> like p b"
    proof cases
      case 1
      then show ?thesis by (intro exI[of _ "[]"] exI[of _ "x # s"]) auto
    next
      case 2
      then obtain a b where "s = a @ b" "like p b" using Cons.IH by auto
      then show ?thesis by (intro exI[of _ "x # a"] exI[of _ b]) auto
    qed
  next
    assume "\<exists>a b. x # s = a @ b \<and> like p b"
    then obtain a b where ab: "x # s = a @ b" "like p b" by auto
    show "like (CHR ''%'' # p) (x # s)"
    proof (cases a)
      case Nil
      then have "like p (x # s)" using ab by simp
      then show ?thesis by simp
    next
      case (Cons y a')
      then have "s = a' @ b" using ab by simp
      then have "like (CHR ''%'' # p) s" using Cons.IH ab by auto
      then show ?thesis by simp
    qed
  qed
qed

lemma like_plain_prefix: "plain v \<Longrightarrow> like (v @ p) s = (\<exists>r. s = v @ r \<and> like p r)"
proof (induction v arbitrary: s)
  case Nil
  then show ?case by simp
next
  case (Cons c v)
  then have c: "c \<noteq> CHR ''%''" "c \<noteq> CHR ''_''" "c \<noteq> CHR 0x5C" and v: "plain v"
    by (simp_all add: plain_def)
  show ?case
  proof (cases s)
    case Nil
    then show ?thesis using c by simp
  next
    case (Cons x s')
    then show ?thesis using c Cons.IH[OF v, of s'] by auto
  qed
qed

lemma like_contains: "plain v \<Longrightarrow> like (CHR ''%'' # v @ ''%'') s = contains s v"
proof -
  assume v: "plain v"
  have "like (CHR ''%'' # v @ ''%'') s = (\<exists>a b. s = a @ b \<and> like (v @ ''%'') b)"
    by (rule like_percent_prefix)
  also have "\<dots> = (\<exists>a b. s = a @ b \<and> (\<exists>r. b = v @ r))"
    using like_plain_prefix[OF v, of "''%''"] like_percent by simp
  also have "\<dots> = contains s v"
    by (auto simp: contains_def sublist_def)
  finally show ?thesis .
qed


lemma spec_name_eq:
  "plain_opt qTH \<Longrightarrow> plain_opt qEN \<Longrightarrow> satName cTH qTH cEN qEN p = spec_name cTH qTH cEN qEN p"
  by (cases qTH; cases qEN) (simp_all add: satName_def spec_name_def plain_opt_def like_contains given_def)

lemma spec_matches_eq: "plain_names query \<Longrightarrow> matches query T p = spec_matches query T p"
  by (simp add: plain_names_def matches_def spec_matches_def spec_name_eq)

text \<open>
  C6, as amended. A row is returned iff it is of the tenant and satisfies every
  supplied predicate (\<open>matches\<close>: all of them, a field that is absent or empty asking
  nothing). For a name component with both variants supplied the predicate is
  \<open>th LIKE %v% OR en LIKE %w%\<close>, with one variant supplied the one \<open>LIKE\<close>. When no supplied
  name value holds a \<open>%\<close>, a \<open>_\<close> or a backslash, \<open>LIKE %v%\<close> is "the field contains \<open>v\<close>" and
  the search is the one the specification words (\<open>spec_Search\<close>).
\<close>

theorem SearchPatients_name_predicates:
  "SearchPatients DB query T =
     (case fault DB of Some e \<Rightarrow> Inl e
      | None \<Rightarrow> Inr (filter (matches query T) (patients_table DB)))
   \<and> (plain_names query \<longrightarrow> SearchPatients DB query T = spec_Search DB query T)"
  by (simp add: SearchPatients_matches spec_Search_def spec_matches_eq cong: filter_cong split: option.splits)

theorem SearchPatients_name_predicates_witness:
  "plain_names (no_criteria\<lparr>PatientSearchQuery.FirstNameTH := Some ''ZZZ'',
                            PatientSearchQuery.FirstNameEN := Some ''omch''\<rparr>)
   \<and> SearchPatients store (no_criteria\<lparr>PatientSearchQuery.FirstNameTH := Some ''ZZZ'',
                            PatientSearchQuery.FirstNameEN := Some ''omch''\<rparr>) 1 = Inr [patient_1]
   \<and> spec_Search store (no_criteria\<lparr>PatientSearchQuery.FirstNameTH := Some ''ZZZ'',
                            PatientSearchQuery.FirstNameEN := Some ''omch''\<rparr>) 1 = Inr [patient_1]"
proof -
  let ?q = "no_criteria\<lparr>PatientSearchQuery.FirstNameTH := Some ''ZZZ'',
                            PatientSearchQuery.FirstNameEN := Some ''omch''\<rparr>"
  have h: "plain_names ?q" by code_simp
  have r: "spec_Search store ?q 1 = Inr [patient_1]" by code_simp
  have e: "SearchPatients store ?q 1 = spec_Search store ?q 1"
    using SearchPatients_name_predicates[of store ?q 1] h by blast
  from h e r show ?thesis by metis
qed

text \<open>
  C6 as stated fails on a value that \<open>LIKE\<close> reads as a pattern: searching the English
  given name for \<open>_\<close> returns a patient whose English given name, Somchai, does not
  contain that character.
\<close>

theorem SearchPatients_wildcard_counterexample:
  "SearchPatients store (no_criteria\<lparr>PatientSearchQuery.FirstNameEN := Some ''_''\<rparr>) 1
     = Inr [patient_1]
   \<and> Patient.FirstNameEN patient_1 = ''Somchai''
   \<and> \<not> contains (Patient.FirstNameEN patient_1) ''_''
   \<and> spec_Search store (no_criteria\<lparr>PatientSearchQuery.FirstNameEN := Some ''_''\<rparr>) 1
     = Inr []"
  by code_simp

text \<open>
  C7. When the \<open>date_of_birth\<close> of the query does not parse, the result is the result of
  the same query without it, and with the store available that is the list of the rows
  matching the other predicates, not an error. When it parses to \<open>dob\<close>, the result is
  that of the query without it, filtered to the rows whose date of birth equals \<open>dob\<close>.
\<close>

theorem SearchPatients_date_of_birth:
  "(time_Parse v = Inl err \<longrightarrow>
      SearchPatients DB (query\<lparr>PatientSearchQuery.DateOfBirth := Some v\<rparr>) T =
      SearchPatients DB (query\<lparr>PatientSearchQuery.DateOfBirth := None\<rparr>) T
      \<and> (fault DB = None \<longrightarrow>
           SearchPatients DB (query\<lparr>PatientSearchQuery.DateOfBirth := Some v\<rparr>) T =
           Inr (filter (matches (query\<lparr>PatientSearchQuery.DateOfBirth := None\<rparr>) T) (patients_table DB))))
   \<and> (time_Parse v = Inr dob \<longrightarrow>
      SearchPatients DB (query\<lparr>PatientSearchQuery.DateOfBirth := Some v\<rparr>) T =
      (case SearchPatients DB (query\<lparr>PatientSearchQuery.DateOfBirth := None\<rparr>) T of
         Inl e \<Rightarrow> Inl e
       | Inr ps \<Rightarrow> Inr (filter (\<lambda>p. Patient.DateOfBirth p = Some dob) ps)))"
proof (intro conjI impI)
  assume bad: "time_Parse v = Inl err"
  then have m: "matches (query\<lparr>PatientSearchQuery.DateOfBirth := Some v\<rparr>) T =
                matches (query\<lparr>PatientSearchQuery.DateOfBirth := None\<rparr>) T"
    by (auto simp: matches_def satDateOfBirth_def given_def fun_eq_iff)
  show "SearchPatients DB (query\<lparr>PatientSearchQuery.DateOfBirth := Some v\<rparr>) T =
        SearchPatients DB (query\<lparr>PatientSearchQuery.DateOfBirth := None\<rparr>) T"
    by (simp add: SearchPatients_matches m split: option.splits)
  assume "fault DB = None"
  then show "SearchPatients DB (query\<lparr>PatientSearchQuery.DateOfBirth := Some v\<rparr>) T =
           Inr (filter (matches (query\<lparr>PatientSearchQuery.DateOfBirth := None\<rparr>) T) (patients_table DB))"
    by (simp add: SearchPatients_matches m)
next
  assume ok: "time_Parse v = Inr dob"
  then have "v \<noteq> []" by (rule time_Parse_nonempty)
  with ok have m: "matches (query\<lparr>PatientSearchQuery.DateOfBirth := Some v\<rparr>) T =
                (\<lambda>p. matches (query\<lparr>PatientSearchQuery.DateOfBirth := None\<rparr>) T p
                   \<and> Patient.DateOfBirth p = Some dob)"
    by (auto simp: matches_def satDateOfBirth_def given_def fun_eq_iff)
  show "SearchPatients DB (query\<lparr>PatientSearchQuery.DateOfBirth := Some v\<rparr>) T =
      (case SearchPatients DB (query\<lparr>PatientSearchQuery.DateOfBirth := None\<rparr>) T of
         Inl e \<Rightarrow> Inl e
       | Inr ps \<Rightarrow> Inr (filter (\<lambda>p. Patient.DateOfBirth p = Some dob) ps))"
    by (simp add: SearchPatients_matches m split: option.splits)
qed

lemma where_empty:
  "whereEq dbQuery c (Some []) = whereEq dbQuery c None"
  "whereName dbQuery cTH (Some []) cEN qEN = whereName dbQuery cTH None cEN qEN"
  "whereName dbQuery cTH qTH cEN (Some []) = whereName dbQuery cTH qTH cEN None"
  "whereDateOfBirth dbQuery (Some []) = whereDateOfBirth dbQuery None"
  by (simp_all add: whereEq_def whereName_def whereDateOfBirth_def given_simps)

lemma buildQuery_empty:
  "buildQuery (query\<lparr>PatientSearchQuery.NationalID := Some []\<rparr>) T = buildQuery (query\<lparr>PatientSearchQuery.NationalID := None\<rparr>) T"
  "buildQuery (query\<lparr>PatientSearchQuery.PassportID := Some []\<rparr>) T = buildQuery (query\<lparr>PatientSearchQuery.PassportID := None\<rparr>) T"
  "buildQuery (query\<lparr>PatientSearchQuery.FirstNameTH := Some []\<rparr>) T = buildQuery (query\<lparr>PatientSearchQuery.FirstNameTH := None\<rparr>) T"
  "buildQuery (query\<lparr>PatientSearchQuery.FirstNameEN := Some []\<rparr>) T = buildQuery (query\<lparr>PatientSearchQuery.FirstNameEN := None\<rparr>) T"
  "buildQuery (query\<lparr>PatientSearchQuery.MiddleNameTH := Some []\<rparr>) T = buildQuery (query\<lparr>PatientSearchQuery.MiddleNameTH := None\<rparr>) T"
  "buildQuery (query\<lparr>PatientSearchQuery.MiddleNameEN := Some []\<rparr>) T = buildQuery (query\<lparr>PatientSearchQuery.MiddleNameEN := None\<rparr>) T"
  "buildQuery (query\<lparr>PatientSearchQuery.LastNameTH := Some []\<rparr>) T = buildQuery (query\<lparr>PatientSearchQuery.LastNameTH := None\<rparr>) T"
  "buildQuery (query\<lparr>PatientSearchQuery.LastNameEN := Some []\<rparr>) T = buildQuery (query\<lparr>PatientSearchQuery.LastNameEN := None\<rparr>) T"
  "buildQuery (query\<lparr>PatientSearchQuery.DateOfBirth := Some []\<rparr>) T = buildQuery (query\<lparr>PatientSearchQuery.DateOfBirth := None\<rparr>) T"
  "buildQuery (query\<lparr>PatientSearchQuery.PhoneNumber := Some []\<rparr>) T = buildQuery (query\<lparr>PatientSearchQuery.PhoneNumber := None\<rparr>) T"
  "buildQuery (query\<lparr>PatientSearchQuery.Email := Some []\<rparr>) T = buildQuery (query\<lparr>PatientSearchQuery.Email := None\<rparr>) T"
  by (simp_all add: buildQuery_def where_empty)


theorem SearchPatients_date_of_birth_witness:
  "time_Parse ''1990-13-45'' = Inl (ParseError ''1990-13-45'')
   \<and> SearchPatients store (no_criteria\<lparr>PatientSearchQuery.DateOfBirth := Some ''1990-13-45''\<rparr>) 1
       = Inr [patient_1]
   \<and> time_Parse ''1990-05-15'' = Inr 642729600000000000
   \<and> SearchPatients store (no_criteria\<lparr>PatientSearchQuery.DateOfBirth := Some ''1990-05-15''\<rparr>) 1
       = Inr [patient_1]
   \<and> time_Parse ''1990-05-16'' = Inr 642816000000000000
   \<and> SearchPatients store (no_criteria\<lparr>PatientSearchQuery.DateOfBirth := Some ''1990-05-16''\<rparr>) 1
       = Inr []"
proof -
  have bad: "time_Parse ''1990-13-45'' = Inl (ParseError ''1990-13-45'')" by code_simp
  have ok: "time_Parse ''1990-05-15'' = Inr 642729600000000000" by code_simp
  have ok': "time_Parse ''1990-05-16'' = Inr 642816000000000000" by code_simp
  have f: "fault store = None" by (simp add: store_def)
  have base: "SearchPatients store (no_criteria\<lparr>PatientSearchQuery.DateOfBirth := None\<rparr>) 1
                = Inr [patient_1]" by code_simp
  have d: "filter (\<lambda>p. Patient.DateOfBirth p = Some 642729600000000000) [patient_1] = [patient_1]"
          "filter (\<lambda>p. Patient.DateOfBirth p = Some 642816000000000000) [patient_1] = []"
    by (simp_all add: patient_1_def)
  have 1: "SearchPatients store (no_criteria\<lparr>PatientSearchQuery.DateOfBirth := Some ''1990-13-45''\<rparr>) 1
       = Inr [patient_1]"
    using SearchPatients_date_of_birth[of "''1990-13-45''" "ParseError ''1990-13-45''" store no_criteria 1]
      bad base by simp
  have 2: "SearchPatients store (no_criteria\<lparr>PatientSearchQuery.DateOfBirth := Some ''1990-05-15''\<rparr>) 1
       = Inr [patient_1]"
    using SearchPatients_date_of_birth[of "''1990-05-15''" _ store no_criteria 1 642729600000000000]
      ok base d by simp
  have 3: "SearchPatients store (no_criteria\<lparr>PatientSearchQuery.DateOfBirth := Some ''1990-05-16''\<rparr>) 1
       = Inr []"
    using SearchPatients_date_of_birth[of "''1990-05-16''" _ store no_criteria 1 642816000000000000]
      ok' base d by simp
  from bad ok ok' 1 2 3 show ?thesis by blast
qed

text \<open>
  C10. For each of the eleven criteria, the empty string gives the same result as the
  absent field.
\<close>

theorem SearchPatients_empty_is_absent:
  "SearchPatients DB (query\<lparr>PatientSearchQuery.NationalID := Some []\<rparr>) T
     = SearchPatients DB (query\<lparr>PatientSearchQuery.NationalID := None\<rparr>) T
   \<and> SearchPatients DB (query\<lparr>PatientSearchQuery.PassportID := Some []\<rparr>) T
     = SearchPatients DB (query\<lparr>PatientSearchQuery.PassportID := None\<rparr>) T
   \<and> SearchPatients DB (query\<lparr>PatientSearchQuery.FirstNameTH := Some []\<rparr>) T
     = SearchPatients DB (query\<lparr>PatientSearchQuery.FirstNameTH := None\<rparr>) T
   \<and> SearchPatients DB (query\<lparr>PatientSearchQuery.FirstNameEN := Some []\<rparr>) T
     = SearchPatients DB (query\<lparr>PatientSearchQuery.FirstNameEN := None\<rparr>) T
   \<and> SearchPatients DB (query\<lparr>PatientSearchQuery.MiddleNameTH := Some []\<rparr>) T
     = SearchPatients DB (query\<lparr>PatientSearchQuery.MiddleNameTH := None\<rparr>) T
   \<and> SearchPatients DB (query\<lparr>PatientSearchQuery.MiddleNameEN := Some []\<rparr>) T
     = SearchPatients DB (query\<lparr>PatientSearchQuery.MiddleNameEN := None\<rparr>) T
   \<and> SearchPatients DB (query\<lparr>PatientSearchQuery.LastNameTH := Some []\<rparr>) T
     = SearchPatients DB (query\<lparr>PatientSearchQuery.LastNameTH := None\<rparr>) T
   \<and> SearchPatients DB (query\<lparr>PatientSearchQuery.LastNameEN := Some []\<rparr>) T
     = SearchPatients DB (query\<lparr>PatientSearchQuery.LastNameEN := None\<rparr>) T
   \<and> SearchPatients DB (query\<lparr>PatientSearchQuery.DateOfBirth := Some []\<rparr>) T
     = SearchPatients DB (query\<lparr>PatientSearchQuery.DateOfBirth := None\<rparr>) T
   \<and> SearchPatients DB (query\<lparr>PatientSearchQuery.PhoneNumber := Some []\<rparr>) T
     = SearchPatients DB (query\<lparr>PatientSearchQuery.PhoneNumber := None\<rparr>) T
   \<and> SearchPatients DB (query\<lparr>PatientSearchQuery.Email := Some []\<rparr>) T
     = SearchPatients DB (query\<lparr>PatientSearchQuery.Email := None\<rparr>) T"
  unfolding SearchPatients_def by (simp only: buildQuery_empty simp_thms)

theorem SearchPatients_empty_is_absent_witness:
  "SearchPatients store (no_criteria\<lparr>PatientSearchQuery.FirstNameEN := Some ''Som'',
        PatientSearchQuery.FirstNameTH := Some []\<rparr>) 2 = Inr [patient_2]
   \<and> SearchPatients store (no_criteria\<lparr>PatientSearchQuery.FirstNameEN := Some ''Som'',
        PatientSearchQuery.FirstNameTH := None\<rparr>) 2 = Inr [patient_2]"
proof -
  let ?q = "no_criteria\<lparr>PatientSearchQuery.FirstNameEN := Some ''Som''\<rparr>"
  have r: "SearchPatients store (?q\<lparr>PatientSearchQuery.FirstNameTH := None\<rparr>) 2 = Inr [patient_2]"
    by code_simp
  have e: "SearchPatients store (?q\<lparr>PatientSearchQuery.FirstNameTH := Some []\<rparr>) 2
           = SearchPatients store (?q\<lparr>PatientSearchQuery.FirstNameTH := None\<rparr>) 2"
    using SearchPatients_empty_is_absent[of store ?q 2] by blast
  from r e show ?thesis by simp
qed

section \<open>Authentication and tokens: properties\<close>

lemma Split_none: "sep \<notin> set a \<Longrightarrow> Split sep a = [a]"
  by (induction a) auto

lemma Split_first: "sep \<notin> set a \<Longrightarrow> Split sep (a @ sep # r) = a # Split sep r"
  by (induction a) auto

lemma Split_three:
  "CHR ''.'' \<notin> set h \<Longrightarrow> CHR ''.'' \<notin> set c \<Longrightarrow> CHR ''.'' \<notin> set s \<Longrightarrow>
   Split CHR ''.'' (h @ ''.'' @ c @ ''.'' @ s) = [h, c, s]"
  by (simp add: Split_first Split_none)

lemma SignedString_HS256:
  "SignedString L (NewWithClaims SigningMethodHS256 claims) key = Inr (tokenString_of L key claims)"
  by (simp add: SignedString_def Sign_def SigningString_def NewWithClaims_def
        SigningMethodHS256_def tokenString_of_def issuedHeader_def Let_def)

lemma AuthenticateStaff_found:
  assumes "FindStaffByUsername DB (StaffLoginRequest.Username loginReq) = Inr row"
  shows "AuthenticateStaff L U A DB now now' loginReq =
     (case GetHospitalIDByName (StaffLoginRequest.Hospital loginReq) of
        Inl err \<Rightarrow> Inl (New ''error verifying hospital'')
      | Inr inputHospitalID \<Rightarrow>
          if Staff.HospitalID row \<noteq> inputHospitalID then Inl (New ''invalid hospital for this user'')
          else if \<not> CheckPasswordHash U (StaffLoginRequest.Password loginReq) (Staff.PasswordHash row)
          then Inl (New ''invalid username or password'')
          else Inr (tokenString_of L (jwtKey A) (issuedClaims A now now' row),
                    row\<lparr>Staff.PasswordHash := []\<rparr>))"
proof -
  have h: "GetHospitalIDByName n = Inl err \<Longrightarrow> \<not> errors_Is err ErrRecordNotFound" for n err
    by (auto simp: GetHospitalIDByName_def split: if_splits)
  show ?thesis
    unfolding AuthenticateStaff_def assms sum.case
    by (cases "GetHospitalIDByName (StaffLoginRequest.Hospital loginReq)")
       (simp_all add: h Let_def SignedString_HS256 issuedClaims_def)
qed

lemma AuthenticateStaff_Inr:
  assumes "AuthenticateStaff L U A DB now now' loginReq = Inr (tokenString, view)"
  shows "\<exists>row. FindStaffByUsername DB (StaffLoginRequest.Username loginReq) = Inr row
           \<and> GetHospitalIDByName (StaffLoginRequest.Hospital loginReq) = Inr (Staff.HospitalID row)
           \<and> CheckPasswordHash U (StaffLoginRequest.Password loginReq) (Staff.PasswordHash row)
           \<and> view = row\<lparr>Staff.PasswordHash := []\<rparr>
           \<and> tokenString = tokenString_of L (jwtKey A) (issuedClaims A now now' row)"
proof (cases "FindStaffByUsername DB (StaffLoginRequest.Username loginReq)")
  case (Inl e)
  with assms show ?thesis by (simp add: AuthenticateStaff_def split: if_splits)
next
  case (Inr row)
  from assms show ?thesis
    unfolding AuthenticateStaff_found[OF Inr]
    by (auto simp: Inr split: sum.splits if_splits)
qed

lemma issuedClaims_view:
  "issuedClaims A now now' (row\<lparr>Staff.PasswordHash := h\<rparr>) = issuedClaims A now now' row"
  by (simp add: issuedClaims_def)

lemma ParseUnverified_issued:
  assumes "carries L key issuedHeader claims"
  shows "ParseUnverified L (tokenString_of L key claims) =
         Inr (\<lparr>Raw = tokenString_of L key claims, Method = SigningMethodHMAC ''HS256'',
               Header = issuedHeader, Claims = claims, Signature = [], Valid = False\<rparr>,
              EncodeHeader L issuedHeader, EncodeClaims L claims,
              EncodeSegment L (HMAC L ''HS256'' key
                 (EncodeHeader L issuedHeader @ ''.'' @ EncodeClaims L claims)))"
proof -
  let ?h = "EncodeHeader L issuedHeader" and ?c = "EncodeClaims L claims"
  let ?s = "EncodeSegment L (HMAC L ''HS256'' key (?h @ ''.'' @ ?c))"
  from assms have d: "CHR ''.'' \<notin> set ?h" "CHR ''.'' \<notin> set ?c" "CHR ''.'' \<notin> set ?s"
    and dec: "DecodeHeader L ?h = Some issuedHeader" "DecodeClaims L ?c = Some claims"
    by (simp_all add: carries_def Let_def)
  have sp: "Split CHR ''.'' (tokenString_of L key claims) = [?h, ?c, ?s]"
    using Split_three[OF d] by (simp add: tokenString_of_def Let_def)
  have alg: "map_of issuedHeader ''alg'' = Some ''HS256''" by (simp add: issuedHeader_def)
  have m: "GetSigningMethod ''HS256'' = Some (SigningMethodHMAC ''HS256'')"
    by (simp add: GetSigningMethod_def)
  show ?thesis by (simp add: ParseUnverified_def sp dec alg m)
qed

lemma ValidateToken_issued:
  assumes c: "carries L (jwtKey A) issuedHeader claims"
    and nbf: "NotBefore claims = None" and exp: "ExpiresAt claims = Some e"
  shows "ValidateToken L A t (tokenString_of L (jwtKey A) claims) =
         (if t < e then Inr claims else Inl (New ''token is expired''))"
proof -
  from c have sig: "DecodeSegment L (EncodeSegment L (HMAC L ''HS256'' (jwtKey A)
                 (EncodeHeader L issuedHeader @ ''.'' @ EncodeClaims L claims)))
            = Some (HMAC L ''HS256'' (jwtKey A)
                 (EncodeHeader L issuedHeader @ ''.'' @ EncodeClaims L claims))"
    by (simp add: carries_def Let_def)
  show ?thesis
    using sig
    by (simp add: ValidateToken_def ParseWithClaims_def ParseUnverified_issued[OF c]
          keyFunc_def Verify_def Validate_def nbf exp newError_def Let_def)
qed

lemma issuedClaims_simps:
  "NotBefore (issuedClaims A now now' row) = None"
  "ExpiresAt (issuedClaims A now now' row) = Some (NewNumericDate (now + jwtExpiry A))"
  "UserID (issuedClaims A now now' row) = Staff.ID row"
  "Claims.Username (issuedClaims A now now' row) = Staff.Username row"
  "Claims.HospitalID (issuedClaims A now now' row) = Staff.HospitalID row"
  by (simp_all add: issuedClaims_def)

lemma NewNumericDate_le: "NewNumericDate t \<le> t"
  by (simp add: NewNumericDate_def Second_def)

lemma NewNumericDate_gt: "t - Second < NewNumericDate t"
  unfolding NewNumericDate_def Second_def
proof -
  have "t mod 1000000000 < 1000000000" by simp
  moreover have "t div 1000000000 * 1000000000 = t - t mod 1000000000"
    by (simp add: minus_mod_eq_div_mult)
  ultimately show "t - 1000000000 < t div 1000000000 * 1000000000" by linarith
qed

lemma FindStaffByUsername_absent:
  assumes "fault DB = None" and "username \<notin> Staff.Username ` set (staff_table DB)"
  shows "FindStaffByUsername DB username = Inl ErrRecordNotFound"
proof -
  have "filter (\<lambda>s. Staff.Username s = username) (staff_table DB) = []"
    using assms(2) by (auto simp: filter_empty_conv)
  with assms(1) show ?thesis by (simp add: FindStaffByUsername_def)
qed

text \<open>
  C2. A login whose username is in no row of the staff table, and a login whose username
  is found, whose hospital resolves to the hospital of that row, and whose password does
  not verify against the stored hash, both fail with the same error value, the one whose
  text is "invalid username or password".
\<close>

theorem AuthenticateStaff_invalid_credentials:
  assumes "fault DB = None"
    and "StaffLoginRequest.Username r1 \<notin> Staff.Username ` set (staff_table DB)"
    and "FindStaffByUsername DB (StaffLoginRequest.Username r2) = Inr row"
    and "GetHospitalIDByName (StaffLoginRequest.Hospital r2) = Inr (Staff.HospitalID row)"
    and "\<not> CheckPasswordHash U (StaffLoginRequest.Password r2) (Staff.PasswordHash row)"
  shows "AuthenticateStaff L U A DB now now' r1 = Inl (New ''invalid username or password'')
       \<and> AuthenticateStaff L U A DB now now' r2 = Inl (New ''invalid username or password'')"
proof
  from assms(1,2) have "FindStaffByUsername DB (StaffLoginRequest.Username r1) = Inl ErrRecordNotFound"
    by (rule FindStaffByUsername_absent)
  then show "AuthenticateStaff L U A DB now now' r1 = Inl (New ''invalid username or password'')"
    by (simp add: AuthenticateStaff_def)
  from assms(4,5) show "AuthenticateStaff L U A DB now now' r2 = Inl (New ''invalid username or password'')"
    by (simp add: AuthenticateStaff_found[OF assms(3)])
qed

theorem AuthenticateStaff_invalid_credentials_witness:
  "fault store = None
   \<and> FindStaffByUsername store ''alice'' = Inr alice
   \<and> AuthenticateStaff toy_codec toy_utils service store 0 0 (login ''bob'' ''pw123'' ''Hospital A'')
       = Inl (New ''invalid username or password'')
   \<and> AuthenticateStaff toy_codec toy_utils service store 0 0 (login ''alice'' ''wrongpw'' ''Hospital A'')
       = Inl (New ''invalid username or password'')"
proof -
  have 1: "fault store = None" by (simp add: store_def)
  have 2: "StaffLoginRequest.Username (login ''bob'' ''pw123'' ''Hospital A'')
            \<notin> Staff.Username ` set (staff_table store)"
    by (simp add: store_def alice_def login_def)
  have 3: "FindStaffByUsername store (StaffLoginRequest.Username (login ''alice'' ''wrongpw'' ''Hospital A'')) = Inr alice"
    by (simp add: FindStaffByUsername_def store_def alice_def login_def)
  have 4: "GetHospitalIDByName (StaffLoginRequest.Hospital (login ''alice'' ''wrongpw'' ''Hospital A''))
            = Inr (Staff.HospitalID alice)"
    by (simp add: GetHospitalIDByName_def alice_def login_def)
  have 5: "\<not> CheckPasswordHash toy_utils (StaffLoginRequest.Password (login ''alice'' ''wrongpw'' ''Hospital A''))
              (Staff.PasswordHash alice)"
    by (simp add: toy_utils_def alice_def login_def)
  have 6: "FindStaffByUsername store ''alice'' = Inr alice"
    using 3 by (simp add: login_def)
  from AuthenticateStaff_invalid_credentials[OF 1 2 3 4 5, of toy_codec service 0 0] 1 6
  show ?thesis by simp
qed

text \<open>
  C5. What the code does for a hospital name that \<open>GetHospitalIDByName\<close> does not know,
  once the username is found: the error is "error verifying hospital". The branch that
  would return "invalid hospital specified" tests the lookup's error against
  \<open>gorm.ErrRecordNotFound\<close>, which the lookup never returns.
\<close>

theorem AuthenticateStaff_unknown_hospital:
  assumes "FindStaffByUsername DB (StaffLoginRequest.Username loginReq) = Inr row"
    and "StaffLoginRequest.Hospital loginReq \<noteq> ''Hospital A''"
    and "StaffLoginRequest.Hospital loginReq \<noteq> ''Hospital B''"
  shows "AuthenticateStaff L U A DB now now' loginReq = Inl (New ''error verifying hospital'')"
  using assms(2,3) by (simp add: AuthenticateStaff_found[OF assms(1)] GetHospitalIDByName_def)

theorem AuthenticateStaff_unknown_hospital_witness:
  "FindStaffByUsername store ''alice'' = Inr alice
   \<and> AuthenticateStaff toy_codec toy_utils service store 0 0 (login ''alice'' ''pw123'' ''Hospital C'')
       = Inl (New ''error verifying hospital'')
   \<and> New ''error verifying hospital'' \<noteq> New ''invalid hospital specified''"
proof -
  have 1: "FindStaffByUsername store (StaffLoginRequest.Username (login ''alice'' ''pw123'' ''Hospital C'')) = Inr alice"
    by (simp add: FindStaffByUsername_def store_def alice_def login_def)
  have 2: "StaffLoginRequest.Hospital (login ''alice'' ''pw123'' ''Hospital C'') \<noteq> ''Hospital A''"
          "StaffLoginRequest.Hospital (login ''alice'' ''pw123'' ''Hospital C'') \<noteq> ''Hospital B''"
    by (simp_all add: login_def)
  have 3: "FindStaffByUsername store ''alice'' = Inr alice"
    using 1 by (simp add: login_def)
  from AuthenticateStaff_unknown_hospital[OF 1 2, of toy_codec toy_utils service 0 0] 3
  show ?thesis by simp
qed

lemma CreateStaffHandler_created:
  assumes "CreateStaffHandler U DB now req = (JSON 201 b, DB')"
  shows "\<exists>view. b = StaffBody view \<and> Staff.PasswordHash view = []"
  using assms
  by (auto simp: CreateStaffHandler_def CreateStaff_def Let_def
      split: option.splits sum.splits if_splits prod.splits)

text \<open>
  C9. The staff record returned by a successful \<open>AuthenticateStaff\<close>, the one in the body
  of a 200 response of the login handler, and the one in the body of a 201 response of
  \<open>CreateStaffHandler\<close> all have an empty password hash.
\<close>

theorem password_hash_cleared:
  "(AuthenticateStaff L U A DB now now' loginReq = Inr (tokenString, view)
      \<longrightarrow> Staff.PasswordHash view = [])
   \<and> (LoginStaffHandler L U A DB now now' loginReq = JSON 200 b
      \<longrightarrow> (\<exists>token view. b = LoginBody token view \<and> Staff.PasswordHash view = []))
   \<and> (CreateStaffHandler U DB now req = (JSON 201 b', DB')
      \<longrightarrow> (\<exists>view. b' = StaffBody view \<and> Staff.PasswordHash view = []))"
proof (intro conjI impI)
  assume "AuthenticateStaff L U A DB now now' loginReq = Inr (tokenString, view)"
  from AuthenticateStaff_Inr[OF this] show "Staff.PasswordHash view = []" by auto
next
  assume r: "LoginStaffHandler L U A DB now now' loginReq = JSON 200 b"
  then obtain token view where a: "AuthenticateStaff L U A DB now now' loginReq = Inr (token, view)"
    and b: "b = LoginBody token view"
    by (auto simp: LoginStaffHandler_def split: option.splits sum.splits)
  from AuthenticateStaff_Inr[OF a] b
  show "\<exists>token view. b = LoginBody token view \<and> Staff.PasswordHash view = []" by auto
next
  assume "CreateStaffHandler U DB now req = (JSON 201 b', DB')"
  then show "\<exists>view. b' = StaffBody view \<and> Staff.PasswordHash view = []"
    by (rule CreateStaffHandler_created)
qed

lemma issued_lifecycle:
  assumes a: "AuthenticateStaff L U A DB now now' loginReq = Inr (tokenString, view)"
    and c: "carries L (jwtKey A) issuedHeader (issuedClaims A now now' view)"
  shows "\<exists>row. FindStaffByUsername DB (StaffLoginRequest.Username loginReq) = Inr row
           \<and> Staff.ID view = Staff.ID row \<and> Staff.Username view = Staff.Username row
           \<and> Staff.HospitalID view = Staff.HospitalID row
           \<and> (\<forall>t. ValidateToken L A t tokenString =
                 (if t < NewNumericDate (now + jwtExpiry A)
                  then Inr (issuedClaims A now now' view)
                  else Inl (New ''token is expired'')))"
proof -
  from AuthenticateStaff_Inr[OF a] obtain row where
    row: "FindStaffByUsername DB (StaffLoginRequest.Username loginReq) = Inr row"
    and view: "view = row\<lparr>Staff.PasswordHash := []\<rparr>"
    and tok: "tokenString = tokenString_of L (jwtKey A) (issuedClaims A now now' row)"
    by blast
  have same: "issuedClaims A now now' row = issuedClaims A now now' view"
    by (simp add: view issuedClaims_view)
  have "ValidateToken L A t tokenString =
          (if t < NewNumericDate (now + jwtExpiry A)
           then Inr (issuedClaims A now now' view) else Inl (New ''token is expired''))" for t
    unfolding tok same
    by (rule ValidateToken_issued[OF c]) (simp_all add: issuedClaims_simps)
  with row view show ?thesis by auto
qed

text \<open>
  C3, as amended. A token issued by a successful login, validated under the same key at any time
  before its expires-at (the issue time plus the configured expiry, cut to whole
  seconds), so at any time that leaves a second of the configured expiry, is accepted,
  and the claims returned carry the ID, the username and the hospital of the staff row
  the login found. The codec is assumed to carry the token: base64url
  has no dot, and the decoders invert the encoders on this header, these claims and this
  signature.
\<close>

theorem issued_token_validates:
  assumes "AuthenticateStaff L U A DB now now' loginReq = Inr (tokenString, view)"
    and "carries L (jwtKey A) issuedHeader (issuedClaims A now now' view)"
    and "t < NewNumericDate (now + jwtExpiry A) \<or> t + Second \<le> now + jwtExpiry A"
  shows "\<exists>row claims.
           FindStaffByUsername DB (StaffLoginRequest.Username loginReq) = Inr row
           \<and> ValidateToken L A t tokenString = Inr claims
           \<and> UserID claims = Staff.ID row
           \<and> Claims.Username claims = Staff.Username row
           \<and> Claims.HospitalID claims = Staff.HospitalID row"
proof -
  from issued_lifecycle[OF assms(1,2)] obtain row where
    "FindStaffByUsername DB (StaffLoginRequest.Username loginReq) = Inr row"
    "Staff.ID view = Staff.ID row" "Staff.Username view = Staff.Username row"
    "Staff.HospitalID view = Staff.HospitalID row"
    "ValidateToken L A t tokenString =
       (if t < NewNumericDate (now + jwtExpiry A)
        then Inr (issuedClaims A now now' view) else Inl (New ''token is expired''))"
    by blast
  moreover have "t < NewNumericDate (now + jwtExpiry A)"
    using assms(3) NewNumericDate_gt[of "now + jwtExpiry A"] by auto
  ultimately show ?thesis by (simp add: issuedClaims_simps)
qed

text \<open>
  C4. A token issued by a successful login fails with "token is expired" at every time
  from its expires-at on, so at every time from the issue time plus the configured
  expiry on; once expired it is expired at every later time; and it is accepted exactly
  at the times before its expires-at. \<open>ValidateToken\<close> reads nothing but the key, the
  clock and the token, so nothing else ends or restores a token.
\<close>

theorem expired_token_rejected:
  assumes "AuthenticateStaff L U A DB now now' loginReq = Inr (tokenString, view)"
    and "carries L (jwtKey A) issuedHeader (issuedClaims A now now' view)"
  shows "(NewNumericDate (now + jwtExpiry A) \<le> t
            \<longrightarrow> ValidateToken L A t tokenString = Inl (New ''token is expired''))
       \<and> (now + jwtExpiry A \<le> t
            \<longrightarrow> ValidateToken L A t tokenString = Inl (New ''token is expired''))
       \<and> (ValidateToken L A t tokenString = Inl (New ''token is expired'') \<and> t \<le> t'
            \<longrightarrow> ValidateToken L A t' tokenString = Inl (New ''token is expired''))
       \<and> ((\<exists>claims. ValidateToken L A t tokenString = Inr claims)
            = (t < NewNumericDate (now + jwtExpiry A)))"
proof -
  from issued_lifecycle[OF assms] have v:
    "ValidateToken L A u tokenString =
       (if u < NewNumericDate (now + jwtExpiry A)
        then Inr (issuedClaims A now now' view) else Inl (New ''token is expired''))" for u
    by blast
  have le: "NewNumericDate (now + jwtExpiry A) \<le> now + jwtExpiry A"
    by (rule NewNumericDate_le)
  show ?thesis using le by (auto simp: v split: if_splits)
qed

lemma ParseUnverified_error:
  "ParseUnverified L tokenStr = Inl err \<Longrightarrow> \<not> errors_Is err ErrTokenExpired"
  by (auto simp: ParseUnverified_def newError_def split: list.splits option.splits)

lemma ValidateToken_errors:
  "ValidateToken L A t tokenStr = Inl e \<Longrightarrow> e = New ''token is expired'' \<or> e = New ''invalid token''"
  by (auto simp: ValidateToken_def split: sum.splits if_splits)

text \<open>
  C8. \<open>ValidateToken\<close> returns the one error "invalid token" for a string that does not
  parse (not three segments, a header or claims that do not decode, an \<open>alg\<close> that is
  missing or names no registered method), for a signature segment that does not decode,
  for a registered method outside the HMAC family, and for a signature that is not the
  HMAC of the signing string under the configured key. Every error it returns is that
  one or "token is expired": neither holds the key or the library's error.
\<close>

theorem ValidateToken_invalid:
  "(ParseUnverified L tokenStr = Inl err
      \<longrightarrow> ValidateToken L A t tokenStr = Inl (New ''invalid token''))
   \<and> (ParseUnverified L tokenStr = Inr (token, p0, p1, p2) \<and> DecodeSegment L p2 = None
      \<longrightarrow> ValidateToken L A t tokenStr = Inl (New ''invalid token''))
   \<and> (ParseUnverified L tokenStr = Inr (token, p0, p1, p2) \<and> Method token = SigningMethodOther a
      \<longrightarrow> ValidateToken L A t tokenStr = Inl (New ''invalid token''))
   \<and> (ParseUnverified L tokenStr = Inr (token, p0, p1, p2) \<and> Method token = SigningMethodHMAC a
        \<and> DecodeSegment L p2 = Some sig \<and> sig \<noteq> HMAC L a (jwtKey A) (p0 @ ''.'' @ p1)
      \<longrightarrow> ValidateToken L A t tokenStr = Inl (New ''invalid token''))
   \<and> (ValidateToken L A t tokenStr = Inl e
      \<longrightarrow> e = New ''token is expired'' \<or> e = New ''invalid token'')"
proof (intro conjI impI)
  assume "ParseUnverified L tokenStr = Inl err"
  then show "ValidateToken L A t tokenStr = Inl (New ''invalid token'')"
    using ParseUnverified_error[of L tokenStr err]
    by (simp add: ValidateToken_def ParseWithClaims_def)
next
  assume "ParseUnverified L tokenStr = Inr (token, p0, p1, p2) \<and> DecodeSegment L p2 = None"
  then show "ValidateToken L A t tokenStr = Inl (New ''invalid token'')"
    by (simp add: ValidateToken_def ParseWithClaims_def newError_def)
next
  assume "ParseUnverified L tokenStr = Inr (token, p0, p1, p2) \<and> Method token = SigningMethodOther a"
  then show "ValidateToken L A t tokenStr = Inl (New ''invalid token'')"
    by (cases "DecodeSegment L p2")
       (simp_all add: ValidateToken_def ParseWithClaims_def newError_def keyFunc_def Let_def)
next
  assume "ParseUnverified L tokenStr = Inr (token, p0, p1, p2) \<and> Method token = SigningMethodHMAC a
        \<and> DecodeSegment L p2 = Some sig \<and> sig \<noteq> HMAC L a (jwtKey A) (p0 @ ''.'' @ p1)"
  then show "ValidateToken L A t tokenStr = Inl (New ''invalid token'')"
    by (simp add: ValidateToken_def ParseWithClaims_def newError_def keyFunc_def Verify_def Let_def)
next
  assume "ValidateToken L A t tokenStr = Inl e"
  then show "e = New ''token is expired'' \<or> e = New ''invalid token''"
    by (rule ValidateToken_errors)
qed


lemma toy_login:
  "AuthenticateStaff toy_codec toy_utils service store issue_time issue_time
     (login ''alice'' ''pw123'' ''Hospital A'')
   = Inr (''HS256.alice.HS256secretHS256alice'', alice\<lparr>Staff.PasswordHash := []\<rparr>)"
  by code_simp

lemma toy_claims:
  "issuedClaims service issue_time issue_time (alice\<lparr>Staff.PasswordHash := []\<rparr>) = alice_claims"
  by code_simp

lemma toy_carries: "carries toy_codec (jwtKey service) issuedHeader alice_claims"
  by code_simp

lemma toy_expiry: "NewNumericDate (issue_time + jwtExpiry service) = 87400 * Second"
  by code_simp

theorem issued_token_validates_witness:
  "AuthenticateStaff toy_codec toy_utils service store issue_time issue_time
     (login ''alice'' ''pw123'' ''Hospital A'')
   = Inr (''HS256.alice.HS256secretHS256alice'', alice\<lparr>Staff.PasswordHash := []\<rparr>)
   \<and> carries toy_codec (jwtKey service) issuedHeader alice_claims
   \<and> issue_time < NewNumericDate (issue_time + jwtExpiry service)
   \<and> (\<exists>row claims.
         FindStaffByUsername store ''alice'' = Inr row
         \<and> ValidateToken toy_codec service issue_time ''HS256.alice.HS256secretHS256alice'' = Inr claims
         \<and> UserID claims = Staff.ID row
         \<and> Claims.Username claims = Staff.Username row
         \<and> Claims.HospitalID claims = Staff.HospitalID row)"
proof -
  have c: "carries toy_codec (jwtKey service) issuedHeader
             (issuedClaims service issue_time issue_time (alice\<lparr>Staff.PasswordHash := []\<rparr>))"
    using toy_carries by (simp add: toy_claims)
  have t: "issue_time < NewNumericDate (issue_time + jwtExpiry service)"
    unfolding toy_expiry by (simp add: issue_time_def Second_def)
  have u: "StaffLoginRequest.Username (login ''alice'' ''pw123'' ''Hospital A'') = ''alice''"
    by (simp add: login_def)
  from issued_token_validates[OF toy_login c disjI1[OF t]] toy_login toy_carries t
  show ?thesis by (simp add: u)
qed

text \<open>
  C3 as stated, with "before the configured expiry has elapsed" counted from the issue
  time, fails where the truncation of expires-at to whole seconds cuts the life of the
  token short: with the expiry of 24 hours, a token issued at second 1000.9 is refused
  as expired at second 87400.6, three tenths of a second before the 24 hours have
  passed; and with an expiry of 900 milliseconds, a token issued at second 1000.05 is
  refused as expired 293 microseconds later.
\<close>

theorem issued_token_truncation_counterexample:
  "AuthenticateStaff toy_codec toy_utils service store late_issue_time late_issue_time
     (login ''alice'' ''pw123'' ''Hospital A'')
   = Inr (''HS256.alice.HS256secretHS256alice'', alice\<lparr>Staff.PasswordHash := []\<rparr>)
   \<and> carries toy_codec (jwtKey service) issuedHeader
        (issuedClaims service late_issue_time late_issue_time (alice\<lparr>Staff.PasswordHash := []\<rparr>))
   \<and> jwtExpiry service = 24 * Hour
   \<and> late_issue_time \<le> late_check_time
   \<and> late_check_time < late_issue_time + jwtExpiry service
   \<and> ValidateToken toy_codec service late_check_time ''HS256.alice.HS256secretHS256alice''
       = Inl (New ''token is expired'')
   \<and> AuthenticateStaff short_codec toy_utils short_service store short_issue_time short_issue_time
     (login ''alice'' ''pw123'' ''Hospital A'')
   = Inr (''HS256.alice.HS256secretHS256alice'', alice\<lparr>Staff.PasswordHash := []\<rparr>)
   \<and> carries short_codec (jwtKey short_service) issuedHeader
        (issuedClaims short_service short_issue_time short_issue_time
           (alice\<lparr>Staff.PasswordHash := []\<rparr>))
   \<and> jwtExpiry short_service = 900000000
   \<and> short_check_time = short_issue_time + 293000
   \<and> short_check_time < short_issue_time + jwtExpiry short_service
   \<and> ValidateToken short_codec short_service short_check_time ''HS256.alice.HS256secretHS256alice''
       = Inl (New ''token is expired'')"
  by code_simp

theorem expired_token_rejected_witness:
  "AuthenticateStaff toy_codec toy_utils service store issue_time issue_time
     (login ''alice'' ''pw123'' ''Hospital A'')
   = Inr (''HS256.alice.HS256secretHS256alice'', alice\<lparr>Staff.PasswordHash := []\<rparr>)
   \<and> carries toy_codec (jwtKey service) issuedHeader alice_claims
   \<and> NewNumericDate (issue_time + jwtExpiry service) = 87400 * Second
   \<and> ValidateToken toy_codec service (87400 * Second) ''HS256.alice.HS256secretHS256alice''
       = Inl (New ''token is expired'')
   \<and> ValidateToken toy_codec service (90000 * Second) ''HS256.alice.HS256secretHS256alice''
       = Inl (New ''token is expired'')"
proof -
  have c: "carries toy_codec (jwtKey service) issuedHeader
             (issuedClaims service issue_time issue_time (alice\<lparr>Staff.PasswordHash := []\<rparr>))"
    using toy_carries by (simp add: toy_claims)
  have le: "87400 * Second \<le> 90000 * Second" by (simp add: Second_def)
  have 1: "ValidateToken toy_codec service (87400 * Second) ''HS256.alice.HS256secretHS256alice''
       = Inl (New ''token is expired'')"
    using expired_token_rejected[OF toy_login c, of "87400 * Second"] by (simp add: toy_expiry)
  have 2: "ValidateToken toy_codec service (90000 * Second) ''HS256.alice.HS256secretHS256alice''
       = Inl (New ''token is expired'')"
    using expired_token_rejected[OF toy_login c, of "87400 * Second" "90000 * Second"] 1 le
    by blast
  from toy_login toy_carries toy_expiry 1 2 show ?thesis by blast
qed

theorem ValidateToken_invalid_witness:
  "ParseUnverified toy_codec ''garbage''
     = Inl (newError ''token contains an invalid number of segments'' ErrTokenMalformed [])
   \<and> ValidateToken toy_codec service 0 ''garbage'' = Inl (New ''invalid token'')
   \<and> ParseUnverified toy_codec ''HS256.alice.''
     = Inr (parsed ''HS256.alice.'' ''HS256'' (SigningMethodHMAC ''HS256''), ''HS256'', ''alice'', [])
   \<and> DecodeSegment toy_codec [] = None
   \<and> ValidateToken toy_codec service 0 ''HS256.alice.'' = Inl (New ''invalid token'')
   \<and> ParseUnverified toy_codec ''none.alice.x''
     = Inr (parsed ''none.alice.x'' ''none'' (SigningMethodOther ''none''), ''none'', ''alice'', ''x'')
   \<and> ValidateToken toy_codec service 0 ''none.alice.x'' = Inl (New ''invalid token'')
   \<and> ParseUnverified toy_codec ''HS256.alice.forged''
     = Inr (parsed ''HS256.alice.forged'' ''HS256'' (SigningMethodHMAC ''HS256''),
            ''HS256'', ''alice'', ''forged'')
   \<and> DecodeSegment toy_codec ''forged'' = Some ''forged''
   \<and> ''forged'' \<noteq> HMAC toy_codec ''HS256'' (jwtKey service) (''HS256'' @ ''.'' @ ''alice'')
   \<and> ValidateToken toy_codec service 0 ''HS256.alice.forged'' = Inl (New ''invalid token'')
   \<and> ValidateToken toy_codec service (90000 * Second) ''HS256.alice.HS256secretHS256alice''
       = Inl (New ''token is expired'')"
proof -
  have a: "ParseUnverified toy_codec ''garbage''
     = Inl (newError ''token contains an invalid number of segments'' ErrTokenMalformed [])"
    by code_simp
  have b: "ParseUnverified toy_codec ''HS256.alice.''
     = Inr (parsed ''HS256.alice.'' ''HS256'' (SigningMethodHMAC ''HS256''), ''HS256'', ''alice'', [])"
    "DecodeSegment toy_codec [] = None"
    by code_simp+
  have c: "ParseUnverified toy_codec ''none.alice.x''
     = Inr (parsed ''none.alice.x'' ''none'' (SigningMethodOther ''none''), ''none'', ''alice'', ''x'')"
    "Method (parsed ''none.alice.x'' ''none'' (SigningMethodOther ''none'')) = SigningMethodOther ''none''"
    by code_simp+
  have d: "ParseUnverified toy_codec ''HS256.alice.forged''
     = Inr (parsed ''HS256.alice.forged'' ''HS256'' (SigningMethodHMAC ''HS256''),
            ''HS256'', ''alice'', ''forged'')"
    "Method (parsed ''HS256.alice.forged'' ''HS256'' (SigningMethodHMAC ''HS256''))
       = SigningMethodHMAC ''HS256''"
    "DecodeSegment toy_codec ''forged'' = Some ''forged''"
    "''forged'' \<noteq> HMAC toy_codec ''HS256'' (jwtKey service) (''HS256'' @ ''.'' @ ''alice'')"
    by code_simp+
  have e: "ValidateToken toy_codec service (90000 * Second) ''HS256.alice.HS256secretHS256alice''
       = Inl (New ''token is expired'')"
    by code_simp
  note T = ValidateToken_invalid[where L = toy_codec and A = service and t = 0]
  have 1: "ValidateToken toy_codec service 0 ''garbage'' = Inl (New ''invalid token'')"
    using T[of "''garbage''"] a by blast
  have 2: "ValidateToken toy_codec service 0 ''HS256.alice.'' = Inl (New ''invalid token'')"
    using T[of "''HS256.alice.''"] b by blast
  have 3: "ValidateToken toy_codec service 0 ''none.alice.x'' = Inl (New ''invalid token'')"
    using T[of "''none.alice.x''"] c by blast
  have 4: "ValidateToken toy_codec service 0 ''HS256.alice.forged'' = Inl (New ''invalid token'')"
    using T[of "''HS256.alice.forged''"] d by blast
  from a b c(1) d(1,3,4) e 1 2 3 4 show ?thesis by blast
qed

theorem password_hash_cleared_witness:
  "AuthenticateStaff toy_codec toy_utils service store issue_time issue_time
     (login ''alice'' ''pw123'' ''Hospital A'')
   = Inr (''HS256.alice.HS256secretHS256alice'', alice\<lparr>Staff.PasswordHash := []\<rparr>)
   \<and> Staff.PasswordHash alice = ''hash:pw123''
   \<and> Staff.PasswordHash (alice\<lparr>Staff.PasswordHash := []\<rparr>) = []
   \<and> CreateStaffHandler toy_utils store 7 (create ''bob'' ''pw456'' ''Hospital B'')
     = (JSON 201 (StaffBody (bob\<lparr>Staff.PasswordHash := []\<rparr>)),
        store\<lparr>staff_table := [alice, bob], staff_seq := 3\<rparr>)
   \<and> Staff.PasswordHash bob = ''hash:pw456''
   \<and> Staff.PasswordHash (bob\<lparr>Staff.PasswordHash := []\<rparr>) = []"
proof -
  have c: "CreateStaffHandler toy_utils store 7 (create ''bob'' ''pw456'' ''Hospital B'')
     = (JSON 201 (StaffBody (bob\<lparr>Staff.PasswordHash := []\<rparr>)),
        store\<lparr>staff_table := [alice, bob], staff_seq := 3\<rparr>)"
    by code_simp
  have h: "Staff.PasswordHash alice = ''hash:pw123''" "Staff.PasswordHash bob = ''hash:pw456''"
    by (simp_all add: alice_def bob_def)
  note T = password_hash_cleared[where L = toy_codec and U = toy_utils and A = service
      and DB = store and now = issue_time and now' = issue_time
      and loginReq = "login ''alice'' ''pw123'' ''Hospital A''"]
  have 1: "Staff.PasswordHash (alice\<lparr>Staff.PasswordHash := []\<rparr>) = []"
    using T toy_login by blast
  have 2: "Staff.PasswordHash (bob\<lparr>Staff.PasswordHash := []\<rparr>) = []"
    using password_hash_cleared[where U = toy_utils and DB = store and now = 7
        and req = "create ''bob'' ''pw456'' ''Hospital B''"] c by blast
  from toy_login c h 1 2 show ?thesis by blast
qed

end
